theory Spec2Isabelle
  imports Main "HOL-Library.Sublist"
begin

section \<open>JavaScript values\<close>

text \<open>
  Every value the handlers touch comes out of \<^verbatim>\<open>JSON.parse\<close> (a request body, a
  record of the snapshot file) or is built from string, boolean and \<^verbatim>\<open>null\<close>
  literals. A JavaScript value is therefore a \<open>json option\<close>, \<open>None\<close> being
  \<^verbatim>\<open>undefined\<close>. \<open>JObj\<close> lists the own properties of an object in insertion order.
  Numbers are kept as integers: the handlers only test a number for being zero and
  compare two numbers for equality.
\<close>

datatype json =
    JNull
  | JBool bool
  | JNum int
  | JStr string
  | JArr "json list"
  | JObj "(string \<times> json) list"

text \<open>\<^verbatim>\<open>!!v\<close>: \<^verbatim>\<open>undefined\<close>, \<^verbatim>\<open>null\<close>, \<^verbatim>\<open>false\<close>, \<^verbatim>\<open>0\<close> and \<^verbatim>\<open>""\<close> are falsy.\<close>

fun truthy :: "json option \<Rightarrow> bool" where
  "truthy None = False"
| "truthy (Some JNull) = False"
| "truthy (Some (JBool b)) = b"
| "truthy (Some (JNum n)) = (n \<noteq> 0)"
| "truthy (Some (JStr s)) = (s \<noteq> [])"
| "truthy (Some (JArr xs)) = True"
| "truthy (Some (JObj kvs)) = True"

text \<open>
  \<^verbatim>\<open>a === b\<close> where \<open>a\<close> is read from a stored record and \<open>b\<close> from the body of the
  request being handled: primitives compare by value, while an array or an object is
  only identical to itself, and the two sides never alias.
\<close>

fun primitive :: "json \<Rightarrow> bool" where
  "primitive (JArr xs) = False"
| "primitive (JObj kvs) = False"
| "primitive v = True"

definition strict_eq :: "json option \<Rightarrow> json option \<Rightarrow> bool" where
  "strict_eq a b = (a = b \<and> (case a of None \<Rightarrow> True | Some v \<Rightarrow> primitive v))"

text \<open>
  \<^verbatim>\<open>v.k\<close> for a value \<open>v\<close> that is neither \<^verbatim>\<open>undefined\<close> nor \<^verbatim>\<open>null\<close> and a property
  name \<open>k\<close> that no prototype defines (all the names read below): the own property of
  an object, \<^verbatim>\<open>undefined\<close> on anything else. Reading a property of \<^verbatim>\<open>null\<close> throws;
  the callers test for it.
\<close>

fun own_prop :: "json \<Rightarrow> string \<Rightarrow> json option" where
  "own_prop (JObj kvs) k = map_of kvs k"
| "own_prop _ k = None"

text \<open>\<^verbatim>\<open>a || b\<close> for an operand \<open>b\<close> without effects.\<close>

definition js_or :: "json option \<Rightarrow> json option \<Rightarrow> json option" where
  "js_or a b = (if truthy a then a else b)"

text \<open>
  Whether \<^verbatim>\<open>`${v}`\<close> yields a string. Converting an object throws a TypeError when an
  own property shadows \<^verbatim>\<open>toString\<close> (a parsed value is never callable); converting an
  array converts its elements.
\<close>

fun to_string_ok :: "json \<Rightarrow> bool" where
  "to_string_ok (JObj kvs) = (''toString'' \<notin> fst ` set kvs)"
| "to_string_ok (JArr xs) = (\<forall>x \<in> set xs. to_string_ok x)"
| "to_string_ok _ = True"

definition interpolates :: "json option \<Rightarrow> bool" where
  "interpolates v = (case v of None \<Rightarrow> True | Some j \<Rightarrow> to_string_ok j)"

text \<open>
  An object literal as \<^verbatim>\<open>JSON.stringify\<close> writes it: a property whose value is
  \<^verbatim>\<open>undefined\<close> is left out.
\<close>

fun stringify_obj :: "(string \<times> json option) list \<Rightarrow> (string \<times> json) list" where
  "stringify_obj [] = []"
| "stringify_obj ((k, None) # kvs) = stringify_obj kvs"
| "stringify_obj ((k, Some v) # kvs) = (k, v) # stringify_obj kvs"

text \<open>\<^verbatim>\<open>s.split('@')[0]\<close>: the part of \<open>s\<close> before its first \<^verbatim>\<open>@\<close>.\<close>

definition split_at_head :: "string \<Rightarrow> string" where
  "split_at_head s = takeWhile (\<lambda>c. c \<noteq> CHR ''@'') s"

section \<open>Requests, responses and the server state\<close>

datatype exn = TypeError

text \<open>
  The text of a request body, by what \<open>parseBody\<close> makes of it: nothing was sent,
  \<^verbatim>\<open>JSON.parse\<close> throws, or \<^verbatim>\<open>JSON.parse\<close> returns a value.
\<close>

datatype body_text = EmptyBody | InvalidJSON | JSONText json

record request =
  req_method :: string
  req_url :: string
  req_authorization :: "string option"
  req_body :: body_text

record response =
  resp_status :: nat
  resp_headers :: "(string \<times> string) list"
  resp_body :: "json option"

text \<open>
  What a handler reads from outside the process while it runs: the clock (a request
  that reads it more than once is given the same reading each time), and whether
  \<^verbatim>\<open>fs.writeFileSync\<close> succeeds. A write that fails is caught and logged, and leaves
  the file as it was.
\<close>

record env =
  now_iso :: string
  now_ms :: int
  fs_ok :: bool

text \<open>
  \<open>users\<close> is \<^verbatim>\<open>db.users\<close>, \<open>disk\<close> the \<^verbatim>\<open>users\<close> array of the snapshot file, and
  \<open>drawn\<close> counts the values \<^verbatim>\<open>crypto.randomUUID()\<close> has returned so far. The
  generator itself is a parameter \<open>gen\<close> of every handler: its \<open>n\<close>-th value is
  \<open>gen n\<close>.
\<close>

record server =
  users :: "json list"
  disk :: "json list"
  drawn :: nat

definition saveDB :: "env \<Rightarrow> server \<Rightarrow> server" where
  "saveDB e st = (if fs_ok e then st\<lparr>disk := users st\<rparr> else st)"

record tokens =
  access_token :: string
  refresh_token :: string
  token_type :: string
  expires_at :: int

definition generateTokens :: "(nat \<Rightarrow> string) \<Rightarrow> env \<Rightarrow> server \<Rightarrow> tokens \<times> server" where
  "generateTokens gen e st =
     (\<lparr>access_token = ''mock_access_token_'' @ gen (drawn st),
       refresh_token = ''mock_refresh_token_'' @ gen (Suc (drawn st)),
       token_type = ''bearer'',
       expires_at = now_ms e div 1000 + 3600\<rparr>,
      st\<lparr>drawn := drawn st + 2\<rparr>)"

definition tokens_obj :: "tokens \<Rightarrow> json" where
  "tokens_obj t = JObj
     [(''access_token'', JStr (access_token t)),
      (''refresh_token'', JStr (refresh_token t)),
      (''token_type'', JStr (token_type t)),
      (''expires_at'', JNum (expires_at t))]"

definition parseBody :: "body_text \<Rightarrow> json option" where
  "parseBody b = (case b of EmptyBody \<Rightarrow> Some (JObj []) | InvalidJSON \<Rightarrow> None | JSONText j \<Rightarrow> Some j)"

definition cors_headers :: "(string \<times> string) list" where
  "cors_headers =
     [(''Access-Control-Allow-Origin'', ''*''),
      (''Access-Control-Allow-Methods'', ''GET, POST, OPTIONS''),
      (''Access-Control-Allow-Headers'', ''Content-Type, Authorization'')]"

definition sendJSON :: "nat \<Rightarrow> json \<Rightarrow> response" where
  "sendJSON statusCode data =
     \<lparr>resp_status = statusCode,
      resp_headers = (''Content-Type'', ''application/json'') # cors_headers,
      resp_body = Some data\<rparr>"

definition detail :: "string \<Rightarrow> json" where
  "detail msg = JObj [(''detail'', JStr msg)]"

section \<open>The handlers of the dependency-free server\<close>

text \<open>
  \<^verbatim>\<open>new URL(req.url, base).pathname\<close> for a request target in origin form made of
  plain path characters (no dot segments, backslashes or characters the URL parser
  rewrites): everything before the query or fragment. On other targets (scheme-relative
  or absolute ones, dot segments) the parser returns another pathname than this
  function, so \<open>url_pathname\<close> is only used where a statement says which route a plain
  target takes; a statement about every request is made for every pathname, see
  \<open>handleRequest_at\<close> below. A target or a Host header that the parser rejects makes the
  handler throw before it answers; such requests are not part of this model.
\<close>

definition url_pathname :: "string \<Rightarrow> string" where
  "url_pathname u = takeWhile (\<lambda>c. c \<noteq> CHR ''?'' \<and> c \<noteq> CHR ''#'') u"

text \<open>
  \<^verbatim>\<open>db.users.find(u => u.email === email)\<close>; reading \<^verbatim>\<open>u.email\<close> throws on \<^verbatim>\<open>null\<close>.
  The handlers look a truthy \<open>email\<close> up: a record that matches has an \<open>email\<close>, so it
  is an object, and \<^verbatim>\<open>!user\<close> holds exactly when nothing was found.
\<close>

fun find_by_email :: "json list \<Rightarrow> json option \<Rightarrow> exn + json option" where
  "find_by_email [] email = Inr None"
| "find_by_email (u # us) email =
     (if u = JNull then Inl TypeError
      else if strict_eq (own_prop u ''email'') email then Inr (Some u)
      else find_by_email us email)"

definition missing_field :: json where
  "missing_field = JObj [(''detail'', JArr [JObj
     [(''loc'', JArr [JStr ''body'', JStr ''field'']),
      (''msg'', JStr ''field required''),
      (''type'', JStr ''value_error.missing'')]])]"

text \<open>\<^verbatim>\<open>name || email.split('@')[0]\<close>; only a string has \<^verbatim>\<open>split\<close>.\<close>

definition default_name :: "json option \<Rightarrow> json option \<Rightarrow> exn + json" where
  "default_name name email =
     (case name of
        Some n \<Rightarrow> if truthy name then Inr n
                  else (case email of Some (JStr s) \<Rightarrow> Inr (JStr (split_at_head s)) | _ \<Rightarrow> Inl TypeError)
      | None \<Rightarrow> (case email of Some (JStr s) \<Rightarrow> Inr (JStr (split_at_head s)) | _ \<Rightarrow> Inl TypeError))"

definition signup :: "(nat \<Rightarrow> string) \<Rightarrow> env \<Rightarrow> request \<Rightarrow> server \<Rightarrow> (exn + response) \<times> server" where
  "signup gen e r st =
     (case parseBody (req_body r) of
        None \<Rightarrow> (Inr (sendJSON 400 (detail ''Invalid JSON'')), st)
      | Some body \<Rightarrow>
          if body = JNull then (Inl TypeError, st)
          else
            let email = own_prop body ''email'';
                password = own_prop body ''password'';
                name = own_prop body ''name''
            in
              if email = None \<or> password = None then (Inr (sendJSON 422 missing_field), st)
              else if \<not> truthy email \<or> \<not> truthy password then
                (Inr (sendJSON 400 (detail ''Email and password are required'')), st)
              else
                let user_id = gen (drawn st);
                    st1 = st\<lparr>drawn := Suc (drawn st)\<rparr>
                in
                  (case default_name name email of
                     Inl x \<Rightarrow> (Inl x, st1)
                   | Inr nm \<Rightarrow>
                       let newUser = JObj
                             [(''user_id'', JStr user_id),
                              (''name'', nm),
                              (''email'', the email),
                              (''created_at'', JStr (now_iso e)),
                              (''is_active'', JBool True),
                              (''email_verified'', JBool True),
                              (''last_login_at'', JNull)];
                           st2 = saveDB e (st1\<lparr>users := users st1 @ [newUser]\<rparr>);
                           (tk, st3) = generateTokens gen e st2
                       in
                         if \<not> interpolates email then (Inl TypeError, st3)
                         else
                           (Inr (sendJSON 200 (JObj (stringify_obj
                              [(''user_id'', own_prop newUser ''user_id''),
                               (''name'', own_prop newUser ''name''),
                               (''email'', own_prop newUser ''email''),
                               (''access_token'', Some (JStr (access_token tk))),
                               (''refresh_token'', Some (JStr (refresh_token tk)))]))),
                            st3)))"

definition signin :: "(nat \<Rightarrow> string) \<Rightarrow> env \<Rightarrow> request \<Rightarrow> server \<Rightarrow> (exn + response) \<times> server" where
  "signin gen e r st =
     (case parseBody (req_body r) of
        None \<Rightarrow> (Inr (sendJSON 400 (detail ''Invalid JSON'')), st)
      | Some body \<Rightarrow>
          if body = JNull then (Inl TypeError, st)
          else
            let email = own_prop body ''email'';
                password = own_prop body ''password''
            in
              if email = None \<or> password = None then
                (Inr (sendJSON 422 (detail ''Email and password are required'')), st)
              else if \<not> truthy email \<or> \<not> truthy password then
                (Inr (sendJSON 400 (detail ''Email and password are required'')), st)
              else
                (case find_by_email (users st) email of
                   Inl x \<Rightarrow> (Inl x, st)
                 | Inr found \<Rightarrow>
                     let (user, st1) =
                           (case found of
                              Some u \<Rightarrow> (u, st)
                            | None \<Rightarrow> (JObj [(''user_id'', JStr (gen (drawn st)))],
                                       st\<lparr>drawn := Suc (drawn st)\<rparr>));
                         (tk, st2) = generateTokens gen e st1
                     in
                       if \<not> interpolates email then (Inl TypeError, st2)
                       else
                         (Inr (sendJSON 200 (JObj (stringify_obj
                            [(''user_id'', own_prop user ''user_id''),
                             (''access_token'', Some (JStr (access_token tk))),
                             (''refresh_token'', Some (JStr (refresh_token tk))),
                             (''token_type'', Some (JStr ''bearer''))]))),
                          st2)))"

definition refresh :: "(nat \<Rightarrow> string) \<Rightarrow> env \<Rightarrow> request \<Rightarrow> server \<Rightarrow> (exn + response) \<times> server" where
  "refresh gen e r st =
     (case parseBody (req_body r) of
        None \<Rightarrow> (Inr (sendJSON 400 (detail ''Invalid JSON'')), st)
      | Some body \<Rightarrow>
          if body = JNull then (Inl TypeError, st)
          else if \<not> truthy (own_prop body ''refresh_token'') then
            (Inr (sendJSON 422 (detail ''Refresh token required'')), st)
          else
            let (tk, st1) = generateTokens gen e st
            in (Inr (sendJSON 200 (tokens_obj tk)), st1))"

definition mock_admin :: "(nat \<Rightarrow> string) \<Rightarrow> env \<Rightarrow> server \<Rightarrow> json" where
  "mock_admin gen e st = JObj
     [(''user_id'', JStr (gen (drawn st))),
      (''name'', JStr ''Mock Admin''),
      (''email'', JStr ''admin@treeex.io''),
      (''created_at'', JStr (now_iso e)),
      (''is_active'', JBool True),
      (''email_verified'', JBool True),
      (''last_login_at'', JStr (now_iso e))]"

definition me :: "(nat \<Rightarrow> string) \<Rightarrow> env \<Rightarrow> request \<Rightarrow> server \<Rightarrow> (exn + response) \<times> server" where
  "me gen e r st =
     (case req_authorization r of
        None \<Rightarrow> (Inr (sendJSON 401 (detail ''Not authenticated'')), st)
      | Some authHeader \<Rightarrow>
          if authHeader = [] \<or> \<not> prefix ''Bearer '' authHeader then
            (Inr (sendJSON 401 (detail ''Not authenticated'')), st)
          else
            let first = (case users st of [] \<Rightarrow> None | u # us \<Rightarrow> Some u);
                (user, st1) =
                  (case first of
                     Some u \<Rightarrow> if truthy first then (u, st)
                               else (mock_admin gen e st, st\<lparr>drawn := Suc (drawn st)\<rparr>)
                   | None \<Rightarrow> (mock_admin gen e st, st\<lparr>drawn := Suc (drawn st)\<rparr>))
            in
              if \<not> interpolates (own_prop user ''email'') then (Inl TypeError, st1)
              else
                (Inr (sendJSON 200 (JObj (stringify_obj
                   [(''user_id'', own_prop user ''user_id''),
                    (''email'', own_prop user ''email''),
                    (''name'', own_prop user ''name''),
                    (''email_verified'', js_or (own_prop user ''email_verified'') (Some (JBool True))),
                    (''is_active'', js_or (own_prop user ''is_active'') (Some (JBool True))),
                    (''created_at'', own_prop user ''created_at''),
                    (''last_login_at'', own_prop user ''last_login_at'')]))),
                 st1))"

definition preflight :: response where
  "preflight = \<lparr>resp_status = 204, resp_headers = cors_headers, resp_body = None\<rparr>"

text \<open>
  The handler from the preflight check on, for the \<open>pathname\<close> that the URL parser
  returned for the request target. Statements that are to hold for every request
  target are made about \<open>route_at\<close> and \<open>handleRequest_at\<close>, for every \<open>pathname\<close>.
\<close>

definition route_at :: "string \<Rightarrow> (nat \<Rightarrow> string) \<Rightarrow> env \<Rightarrow> request \<Rightarrow> server \<Rightarrow> (exn + response) \<times> server" where
  "route_at pathname gen e r st =
     (let method = req_method r
      in
        if method = ''GET'' \<and> pathname = ''/health'' then
          (Inr (sendJSON 200 (JObj [(''status'', JStr ''running'')])), st)
        else if method = ''POST'' \<and> pathname = ''/api/auth/signup'' then signup gen e r st
        else if method = ''POST'' \<and> pathname = ''/api/auth/signin'' then signin gen e r st
        else if method = ''POST'' \<and> pathname = ''/api/auth/refresh'' then refresh gen e r st
        else if method = ''GET'' \<and> pathname = ''/api/auth/me'' then me gen e r st
        else (Inr (sendJSON 404 (detail ''Not found'')), st))"

definition handleRequest_at :: "string \<Rightarrow> (nat \<Rightarrow> string) \<Rightarrow> env \<Rightarrow> request \<Rightarrow> server \<Rightarrow> response \<times> server" where
  "handleRequest_at pathname gen e r st =
     (if req_method r = ''OPTIONS'' then (preflight, st)
      else
        (case route_at pathname gen e r st of
           (Inr resp, st') \<Rightarrow> (resp, st')
         | (Inl x, st') \<Rightarrow> (sendJSON 500 (detail ''Internal server error''), st')))"

text \<open>The handler for a request target whose pathname is \<open>url_pathname\<close> of it.\<close>

definition route :: "(nat \<Rightarrow> string) \<Rightarrow> env \<Rightarrow> request \<Rightarrow> server \<Rightarrow> (exn + response) \<times> server" where
  "route gen e r st = route_at (url_pathname (req_url r)) gen e r st"

definition handleRequest :: "(nat \<Rightarrow> string) \<Rightarrow> env \<Rightarrow> request \<Rightarrow> server \<Rightarrow> response \<times> server" where
  "handleRequest gen e r st = handleRequest_at (url_pathname (req_url r)) gen e r st"

text \<open>A session: the requests are handled one after the other, each in its own environment.\<close>

fun run :: "(nat \<Rightarrow> string) \<Rightarrow> (env \<times> request) list \<Rightarrow> server \<Rightarrow> response list \<times> server" where
  "run gen [] st = ([], st)"
| "run gen ((e, r) # rest) st =
     (let (resp, st1) = handleRequest gen e r st;
          (resps, st2) = run gen rest st1
      in (resp # resps, st2))"

text \<open>
  A session in which each request comes with the pathname that the URL parser returned
  for its target.
\<close>

fun run_at :: "(nat \<Rightarrow> string) \<Rightarrow> (string \<times> env \<times> request) list \<Rightarrow> server \<Rightarrow> response list \<times> server" where
  "run_at gen [] st = ([], st)"
| "run_at gen ((pathname, e, r) # rest) st =
     (let (resp, st1) = handleRequest_at pathname gen e r st;
          (resps, st2) = run_at gen rest st1
      in (resp # resps, st2))"

section \<open>The older dependency-free server\<close>

text \<open>
  \<^verbatim>\<open>mock-auth-server-standalone.js\<close> compares the raw request target with each route,
  swallows a body that does not parse, and has a single presence check per operation.
\<close>

definition standalone_parseBody :: "body_text \<Rightarrow> json" where
  "standalone_parseBody b = (case b of EmptyBody \<Rightarrow> JObj [] | InvalidJSON \<Rightarrow> JObj [] | JSONText j \<Rightarrow> j)"

definition standalone_generateTokens :: "(nat \<Rightarrow> string) \<Rightarrow> server \<Rightarrow> (string \<times> json) list \<times> server" where
  "standalone_generateTokens gen st =
     ([(''access_token'', JStr (''mock_access_token_'' @ gen (drawn st))),
       (''refresh_token'', JStr (''mock_refresh_token_'' @ gen (Suc (drawn st)))),
       (''token_type'', JStr ''bearer'')],
      st\<lparr>drawn := drawn st + 2\<rparr>)"

definition standalone_missing_field :: json where
  "standalone_missing_field = JObj [(''detail'', JArr [JObj
     [(''loc'', JArr [JStr ''body'', JStr ''email'']),
      (''msg'', JStr ''field required''),
      (''type'', JStr ''value_error.missing'')]])]"

definition standalone_signup :: "(nat \<Rightarrow> string) \<Rightarrow> env \<Rightarrow> request \<Rightarrow> server \<Rightarrow> (exn + response) \<times> server" where
  "standalone_signup gen e r st =
     (let body = standalone_parseBody (req_body r)
      in
        if body = JNull then (Inl TypeError, st)
        else
          let email = own_prop body ''email'';
              password = own_prop body ''password'';
              name = own_prop body ''name''
          in
            if \<not> truthy email \<or> \<not> truthy password then
              (Inr (sendJSON 422 standalone_missing_field), st)
            else
              let newUser =
                    [(''user_id'', JStr (gen (drawn st))),
                     (''name'', the (js_or name (Some (JStr ''New User'')))),
                     (''email'', the email)];
                  st1 = saveDB e (st\<lparr>drawn := Suc (drawn st), users := users st @ [JObj newUser]\<rparr>);
                  (tk, st2) = standalone_generateTokens gen st1
              in
                if \<not> interpolates email then (Inl TypeError, st2)
                else (Inr (sendJSON 200 (JObj (newUser @ tk))), st2))"

definition standalone_signin :: "(nat \<Rightarrow> string) \<Rightarrow> env \<Rightarrow> request \<Rightarrow> server \<Rightarrow> (exn + response) \<times> server" where
  "standalone_signin gen e r st =
     (let body = standalone_parseBody (req_body r)
      in
        if body = JNull then (Inl TypeError, st)
        else
          let email = own_prop body ''email'';
              password = own_prop body ''password''
          in
            if \<not> truthy email \<or> \<not> truthy password then
              (Inr (sendJSON 422 (detail ''Email and password required'')), st)
            else
              (case find_by_email (users st) email of
                 Inl x \<Rightarrow> (Inl x, st)
               | Inr found \<Rightarrow>
                   let (user, st1) =
                         (case found of
                            Some u \<Rightarrow> (u, st)
                          | None \<Rightarrow> (JObj [(''user_id'', JStr (gen (drawn st)))],
                                     st\<lparr>drawn := Suc (drawn st)\<rparr>));
                       (tk, st2) = standalone_generateTokens gen st1
                   in
                     if \<not> interpolates email then (Inl TypeError, st2)
                     else
                       (Inr (sendJSON 200 (JObj
                          (stringify_obj [(''user_id'', own_prop user ''user_id'')] @ tk))),
                        st2)))"

definition standalone_refresh :: "(nat \<Rightarrow> string) \<Rightarrow> env \<Rightarrow> request \<Rightarrow> server \<Rightarrow> (exn + response) \<times> server" where
  "standalone_refresh gen e r st =
     (let body = standalone_parseBody (req_body r)
      in
        if body = JNull then (Inl TypeError, st)
        else if \<not> truthy (own_prop body ''refresh_token'') then
          (Inr (sendJSON 422 (detail ''Refresh token required'')), st)
        else
          let (tk, st1) = standalone_generateTokens gen st
          in (Inr (sendJSON 200 (JObj tk)), st1))"

definition standalone_me :: "(nat \<Rightarrow> string) \<Rightarrow> env \<Rightarrow> request \<Rightarrow> server \<Rightarrow> (exn + response) \<times> server" where
  "standalone_me gen e r st =
     (case req_authorization r of
        None \<Rightarrow> (Inr (sendJSON 401 (detail ''Not authenticated'')), st)
      | Some authHeader \<Rightarrow>
          if authHeader = [] \<or> \<not> prefix ''Bearer '' authHeader then
            (Inr (sendJSON 401 (detail ''Not authenticated'')), st)
          else
            let first = (case users st of [] \<Rightarrow> None | u # us \<Rightarrow> Some u);
                fallback = JObj
                  [(''user_id'', JStr (gen (drawn st))),
                   (''name'', JStr ''Mock Admin''),
                   (''email'', JStr ''admin@treeex.io'')];
                (user, st1) =
                  (case first of
                     Some u \<Rightarrow> if truthy first then (u, st)
                               else (fallback, st\<lparr>drawn := Suc (drawn st)\<rparr>)
                   | None \<Rightarrow> (fallback, st\<lparr>drawn := Suc (drawn st)\<rparr>))
            in
              if \<not> interpolates (own_prop user ''email'') then (Inl TypeError, st1)
              else (Inr (sendJSON 200 user), st1))"

definition standalone_handleRequest :: "(nat \<Rightarrow> string) \<Rightarrow> env \<Rightarrow> request \<Rightarrow> server \<Rightarrow> response \<times> server" where
  "standalone_handleRequest gen e r st =
     (if req_method r = ''OPTIONS'' then (preflight, st)
      else
        let method = req_method r; url = req_url r;
            (res, st') =
              (if method = ''GET'' \<and> url = ''/health'' then
                 (Inr (sendJSON 200 (JObj [(''status'', JStr ''running'')])), st)
               else if method = ''POST'' \<and> url = ''/api/auth/signup'' then standalone_signup gen e r st
               else if method = ''POST'' \<and> url = ''/api/auth/signin'' then standalone_signin gen e r st
               else if method = ''POST'' \<and> url = ''/api/auth/refresh'' then standalone_refresh gen e r st
               else if method = ''GET'' \<and> url = ''/api/auth/me'' then standalone_me gen e r st
               else (Inr (sendJSON 404 (detail ''Not found'')), st))
        in
          (case res of
             Inr resp \<Rightarrow> (resp, st')
           | Inl x \<Rightarrow> (sendJSON 500 (detail ''Internal server error''), st')))"

section \<open>Reading responses and records\<close>

definition body_keys :: "response \<Rightarrow> string list" where
  "body_keys resp = (case resp_body resp of Some (JObj kvs) \<Rightarrow> map fst kvs | _ \<Rightarrow> [])"

definition body_field :: "response \<Rightarrow> string \<Rightarrow> json option" where
  "body_field resp k = (case resp_body resp of Some j \<Rightarrow> own_prop j k | None \<Rightarrow> None)"

definition is_route :: "string \<Rightarrow> string \<Rightarrow> request \<Rightarrow> bool" where
  "is_route m p r = (req_method r = m \<and> url_pathname (req_url r) = p)"

definition bearer :: "request \<Rightarrow> bool" where
  "bearer r = (case req_authorization r of None \<Rightarrow> False | Some h \<Rightarrow> prefix ''Bearer '' h)"

text \<open>
  What the handlers take for granted of a stored value: \<open>has_id\<close>, an object whose
  \<open>user_id\<close> is a string, which is what signup stores; and \<open>user_record\<close>, such an
  object whose \<open>email\<close> is a string too, as the UserRecord of the data model has it.
\<close>

fun is_str :: "json option \<Rightarrow> bool" where
  "is_str (Some (JStr s)) = True"
| "is_str v = False"

fun has_id :: "json \<Rightarrow> bool" where
  "has_id (JObj kvs) = is_str (map_of kvs ''user_id'')"
| "has_id v = False"

fun user_record :: "json \<Rightarrow> bool" where
  "user_record (JObj kvs) = (is_str (map_of kvs ''user_id'') \<and> is_str (map_of kvs ''email''))"
| "user_record v = False"

text \<open>The entries of a structured \<open>detail\<close> list, and the required fields a body lacks.\<close>

definition detail_entries :: "response \<Rightarrow> json list" where
  "detail_entries resp = (case body_field resp ''detail'' of Some (JArr xs) \<Rightarrow> xs | _ \<Rightarrow> [])"

definition missing_fields :: "(string \<times> json) list \<Rightarrow> string list" where
  "missing_fields kvs = filter (\<lambda>k. map_of kvs k = None) [''email'', ''password'']"

text \<open>
  The \<open>access_token\<close> of a response, if it has one, is the mock prefix followed by a
  value the generator returned at a position from \<open>lo\<close> up to, not including, \<open>hi\<close>.
\<close>

definition access_token_from :: "(nat \<Rightarrow> string) \<Rightarrow> nat \<Rightarrow> nat \<Rightarrow> response \<Rightarrow> bool" where
  "access_token_from gen lo hi resp =
     (case body_field resp ''access_token'' of
        None \<Rightarrow> True
      | Some v \<Rightarrow> v \<in> (\<lambda>k. JStr (''mock_access_token_'' @ gen k)) ` {lo..<hi})"

definition id_of :: "json \<Rightarrow> json option" where
  "id_of u = own_prop u ''user_id''"

definition email_of :: "json \<Rightarrow> json option" where
  "email_of u = own_prop u ''email''"

text \<open>
  The identifiers of the stored records are pairwise different values that the
  generator returned before the position \<open>drawn\<close>.
\<close>

definition ids_from :: "(nat \<Rightarrow> string) \<Rightarrow> server \<Rightarrow> bool" where
  "ids_from gen st =
     (distinct (map id_of (users st)) \<and>
      (\<forall>u \<in> set (users st). id_of u \<in> (\<lambda>k. Some (JStr (gen k))) ` {..<drawn st}))"

text \<open>
  Every identifier stored in the Collection or in the snapshot is a value that the
  generator returned before the position \<open>drawn\<close>.
\<close>

definition ids_drawn :: "(nat \<Rightarrow> string) \<Rightarrow> server \<Rightarrow> bool" where
  "ids_drawn gen st =
     (\<forall>u \<in> set (users st) \<union> set (disk st). id_of u \<in> (\<lambda>k. Some (JStr (gen k))) ` {..<drawn st})"

text \<open>The five routes of the dispatcher, by method and pathname.\<close>

definition known_route :: "string \<Rightarrow> string \<Rightarrow> bool" where
  "known_route method pathname =
     ((method = ''GET'' \<and> pathname = ''/health'') \<or>
      (method = ''POST'' \<and> pathname = ''/api/auth/signup'') \<or>
      (method = ''POST'' \<and> pathname = ''/api/auth/signin'') \<or>
      (method = ''POST'' \<and> pathname = ''/api/auth/refresh'') \<or>
      (method = ''GET'' \<and> pathname = ''/api/auth/me''))"

section \<open>Sample inputs\<close>

definition sample_gen :: "nat \<Rightarrow> string" where
  "sample_gen n = ''uuid-'' @ replicate n (CHR ''i'')"

definition sample_env :: env where
  "sample_env = \<lparr>now_iso = ''2024-01-01T00:00:00.000Z'', now_ms = 1704067200000, fs_ok = True\<rparr>"

definition empty_server :: server where
  "empty_server = \<lparr>users = [], disk = [], drawn = 0\<rparr>"

definition alice_record :: json where
  "alice_record = JObj
     [(''user_id'', JStr ''uuid-''),
      (''name'', JStr ''Alice''),
      (''email'', JStr ''alice@example.com''),
      (''created_at'', JStr ''2024-01-01T00:00:00.000Z''),
      (''is_active'', JBool True),
      (''email_verified'', JBool True),
      (''last_login_at'', JNull)]"

definition alice_server :: server where
  "alice_server = \<lparr>users = [alice_record], disk = [alice_record], drawn = 3\<rparr>"

definition unverified_record :: json where
  "unverified_record = JObj
     [(''user_id'', JStr ''u1''),
      (''name'', JStr ''Dana''),
      (''email'', JStr ''dana@example.com''),
      (''created_at'', JStr ''2023-06-01T00:00:00.000Z''),
      (''is_active'', JBool False),
      (''email_verified'', JBool False),
      (''last_login_at'', JNull)]"

definition unverified_server :: server where
  "unverified_server = \<lparr>users = [unverified_record], disk = [unverified_record], drawn = 0\<rparr>"

definition shadowing_email :: json where
  "shadowing_email = JObj [(''toString'', JNum 1)]"

definition post :: "string \<Rightarrow> json \<Rightarrow> request" where
  "post u j = \<lparr>req_method = ''POST'', req_url = u, req_authorization = None, req_body = JSONText j\<rparr>"

definition get_with :: "string \<Rightarrow> string option \<Rightarrow> request" where
  "get_with u h = \<lparr>req_method = ''GET'', req_url = u, req_authorization = h, req_body = EmptyBody\<rparr>"

definition credentials :: "string \<Rightarrow> string \<Rightarrow> json" where
  "credentials em pw = JObj [(''email'', JStr em), (''password'', JStr pw)]"

section \<open>Basic facts about the handlers\<close>

text \<open>The dispatcher on a request, written out.\<close>

lemma route_eq:
  "route gen e r st =
     (let pathname = url_pathname (req_url r); method = req_method r
      in
        if method = ''GET'' \<and> pathname = ''/health'' then
          (Inr (sendJSON 200 (JObj [(''status'', JStr ''running'')])), st)
        else if method = ''POST'' \<and> pathname = ''/api/auth/signup'' then signup gen e r st
        else if method = ''POST'' \<and> pathname = ''/api/auth/signin'' then signin gen e r st
        else if method = ''POST'' \<and> pathname = ''/api/auth/refresh'' then refresh gen e r st
        else if method = ''GET'' \<and> pathname = ''/api/auth/me'' then me gen e r st
        else (Inr (sendJSON 404 (detail ''Not found'')), st))"
  by (simp add: route_def route_at_def Let_def)

lemma handleRequest_eq:
  "handleRequest gen e r st =
     (if req_method r = ''OPTIONS'' then (preflight, st)
      else
        (case route gen e r st of
           (Inr resp, st') \<Rightarrow> (resp, st')
         | (Inl x, st') \<Rightarrow> (sendJSON 500 (detail ''Internal server error''), st')))"
  by (simp add: handleRequest_def handleRequest_at_def route_def)

text \<open>The definitions a concrete run unfolds.\<close>

lemmas run_defs =
  handleRequest_eq route_eq signup_def signin_def refresh_def me_def mock_admin_def
  default_name_def split_at_head_def saveDB_def generateTokens_def tokens_obj_def
  parseBody_def url_pathname_def interpolates_def strict_eq_def js_or_def
  sendJSON_def detail_def missing_field_def preflight_def Let_def

lemmas sample_defs =
  post_def get_with_def credentials_def sample_env_def sample_gen_def
  empty_server_def alice_server_def alice_record_def unverified_server_def unverified_record_def
  shadowing_email_def

lemma is_str_iff: "is_str v \<longleftrightarrow> (\<exists>s. v = Some (JStr s))"
  by (cases v rule: is_str.cases) auto

lemma has_id_not_null: "list_all has_id us \<Longrightarrow> JNull \<notin> set us"
  by (induction us) auto

lemma has_id_prop: "has_id u \<Longrightarrow> \<exists>i. own_prop u ''user_id'' = Some (JStr i)"
  by (cases u) (auto simp: is_str_iff)

lemma user_record_has_id: "user_record u \<Longrightarrow> has_id u"
  by (cases u) auto

lemma user_record_has_email: "user_record u \<Longrightarrow> \<exists>m. own_prop u ''email'' = Some (JStr m)"
  by (cases u) (auto simp: is_str_iff)

lemma find_Some_in: "List.find P us = Some u \<Longrightarrow> u \<in> set us"
  by (induction us) (auto split: if_splits)

text \<open>Without a \<^verbatim>\<open>null\<close> among the records the lookup is an ordinary \<open>find\<close>.\<close>

lemma find_by_email_find:
  "JNull \<notin> set us \<Longrightarrow>
   find_by_email us em = Inr (List.find (\<lambda>u. strict_eq (own_prop u ''email'') em) us)"
  by (induction us) auto

lemma handle_route:
  "is_route m p r \<Longrightarrow> m \<noteq> ''OPTIONS'' \<Longrightarrow>
   handleRequest gen e r st =
     (case route gen e r st of
        (Inr resp, st') \<Rightarrow> (resp, st')
      | (Inl x, st') \<Rightarrow> (sendJSON 500 (detail ''Internal server error''), st'))"
  by (auto simp: handleRequest_eq is_route_def)

lemma route_signup: "is_route ''POST'' ''/api/auth/signup'' r \<Longrightarrow> route gen e r st = signup gen e r st"
  by (simp add: route_eq is_route_def)

lemma route_signin: "is_route ''POST'' ''/api/auth/signin'' r \<Longrightarrow> route gen e r st = signin gen e r st"
  by (simp add: route_eq is_route_def)

lemma route_refresh: "is_route ''POST'' ''/api/auth/refresh'' r \<Longrightarrow> route gen e r st = refresh gen e r st"
  by (simp add: route_eq is_route_def)

lemma route_me: "is_route ''GET'' ''/api/auth/me'' r \<Longrightarrow> route gen e r st = me gen e r st"
  by (simp add: route_eq is_route_def)

text \<open>Signin with usable credentials, for an email that has a record and for one that has none.\<close>

lemma signin_known:
  assumes "parseBody (req_body r) = Some (JObj kvs)"
    and "map_of kvs ''email'' = Some (JStr em)" and "em \<noteq> []"
    and "map_of kvs ''password'' = Some pw" and "truthy (Some pw)"
    and "find_by_email (users st) (Some (JStr em)) = Inr (Some u)"
  shows "signin gen e r st =
    (Inr (sendJSON 200 (JObj (stringify_obj
        [(''user_id'', own_prop u ''user_id''),
         (''access_token'', Some (JStr (''mock_access_token_'' @ gen (drawn st)))),
         (''refresh_token'', Some (JStr (''mock_refresh_token_'' @ gen (Suc (drawn st))))),
         (''token_type'', Some (JStr ''bearer''))]))),
     st\<lparr>drawn := drawn st + 2\<rparr>)"
  using assms by (simp add: signin_def generateTokens_def interpolates_def)

lemma signin_ghost:
  assumes "parseBody (req_body r) = Some (JObj kvs)"
    and "map_of kvs ''email'' = Some (JStr em)" and "em \<noteq> []"
    and "map_of kvs ''password'' = Some pw" and "truthy (Some pw)"
    and "find_by_email (users st) (Some (JStr em)) = Inr None"
  shows "signin gen e r st =
    (Inr (sendJSON 200 (JObj
        [(''user_id'', JStr (gen (drawn st))),
         (''access_token'', JStr (''mock_access_token_'' @ gen (Suc (drawn st)))),
         (''refresh_token'', JStr (''mock_refresh_token_'' @ gen (Suc (Suc (drawn st))))),
         (''token_type'', JStr ''bearer'')])),
     st\<lparr>drawn := drawn st + 3\<rparr>)"
  using assms by (simp add: signin_def generateTokens_def interpolates_def)

lemma find_by_email_in: "find_by_email us em = Inr (Some u) \<Longrightarrow> u \<in> set us"
  by (induction us) (auto split: if_splits)

lemma resp_status_sendJSON: "resp_status (sendJSON n d) = n"
  by (simp add: sendJSON_def)

lemma resp_body_sendJSON: "resp_body (sendJSON n d) = Some d"
  by (simp add: sendJSON_def)

lemma handle_200:
  assumes "is_route m p r" and "m \<noteq> ''OPTIONS''" and "resp_status (fst (handleRequest gen e r st)) = 200"
  shows "route gen e r st = (Inr (fst (handleRequest gen e r st)), snd (handleRequest gen e r st))"
  using assms(3) unfolding handle_route[OF assms(1,2)]
  by (auto simp: resp_status_sendJSON split: prod.splits sum.splits)

section \<open>Signin is permissive\<close>

text \<open>
  Claim C1. A signin request whose body holds a non-empty email and a non-empty
  password is answered 200 with a \<open>user_id\<close>, whether or not a record with that email
  exists, and the answer is the same for every non-empty password: nothing is checked
  against the password. The stored records are objects with a string \<open>user_id\<close>, as
  every record that signup stores is.
\<close>

theorem signin_accepts_any_credentials:
  assumes route: "is_route ''POST'' ''/api/auth/signin'' r"
    and body: "parseBody (req_body r) = Some (JObj kvs)"
    and email: "map_of kvs ''email'' = Some (JStr em)" "em \<noteq> []"
    and password: "map_of kvs ''password'' = Some (JStr pw)" "pw \<noteq> []"
    and records: "list_all has_id (users st)"
  shows "resp_status (fst (handleRequest gen e r st)) = 200
       \<and> (\<exists>i. body_field (fst (handleRequest gen e r st)) ''user_id'' = Some (JStr i))
       \<and> (\<forall>pw'. pw' \<noteq> [] \<longrightarrow>
            handleRequest gen e (r\<lparr>req_body := JSONText (credentials em pw')\<rparr>) st
            = handleRequest gen e r st)"
proof -
  let ?found = "List.find (\<lambda>u. strict_eq (own_prop u ''email'') (Some (JStr em))) (users st)"
  let ?r' = "\<lambda>pw'. r\<lparr>req_body := JSONText (credentials em pw')\<rparr>"
  have f: "find_by_email (users st) (Some (JStr em)) = Inr ?found"
    using records by (simp add: find_by_email_find has_id_not_null)
  have pw: "truthy (Some (JStr pw))" using password by simp
  have h: "handleRequest gen e r st = (case signin gen e r st of
        (Inr resp, st') \<Rightarrow> (resp, st')
      | (Inl x, st') \<Rightarrow> (sendJSON 500 (detail ''Internal server error''), st'))"
    using route by (simp add: handle_route route_signin)
  have r': "is_route ''POST'' ''/api/auth/signin'' (?r' pw')" for pw'
    using route by (simp add: is_route_def)
  have h': "handleRequest gen e (?r' pw') st = (case signin gen e (?r' pw') st of
        (Inr resp, st') \<Rightarrow> (resp, st')
      | (Inl x, st') \<Rightarrow> (sendJSON 500 (detail ''Internal server error''), st'))" for pw'
    using r'[of pw'] by (simp add: handle_route route_signin)
  have body': "parseBody (req_body (?r' pw')) = Some (JObj [(''email'', JStr em), (''password'', JStr pw')])"
    for pw' by (simp add: parseBody_def credentials_def)
  show ?thesis
  proof (cases ?found)
    case None
    note here = signin_ghost[OF body email(1) email(2) password(1) pw, of st gen e]
    have "signin gen e (?r' pw') st = signin gen e r st" if "pw' \<noteq> []" for pw'
      using signin_ghost[OF body'[of pw'], where em=em and pw="JStr pw'" and st=st and gen=gen and e=e] here f None that email(2) by simp
    then show ?thesis
      by (simp add: h h' here f None sendJSON_def body_field_def)
  next
    case (Some u)
    then have "u \<in> set (users st)" by (rule find_Some_in)
    with records have "has_id u" by (simp add: list_all_iff)
    then obtain i where i: "own_prop u ''user_id'' = Some (JStr i)"
      using has_id_prop by blast
    note here = signin_known[OF body email(1) email(2) password(1) pw, of st u gen e]
    have "signin gen e (?r' pw') st = signin gen e r st" if "pw' \<noteq> []" for pw'
      using signin_known[OF body'[of pw'], where em=em and pw="JStr pw'" and st=st and u=u and gen=gen and e=e] here f Some that email(2) by simp
    then show ?thesis
      by (simp add: h h' here f Some i sendJSON_def body_field_def)
  qed
qed

theorem signin_accepts_any_credentials_witness:
  "is_route ''POST'' ''/api/auth/signin'' (post ''/api/auth/signin'' (credentials ''bob@notexists.com'' ''x''))
   \<and> list_all has_id (users empty_server)
   \<and> resp_status (fst (handleRequest sample_gen sample_env
        (post ''/api/auth/signin'' (credentials ''bob@notexists.com'' ''x'')) empty_server)) = 200
   \<and> (\<exists>i. body_field (fst (handleRequest sample_gen sample_env
        (post ''/api/auth/signin'' (credentials ''bob@notexists.com'' ''x'')) empty_server)) ''user_id''
        = Some (JStr i))"
proof -
  let ?r = "post ''/api/auth/signin'' (credentials ''bob@notexists.com'' ''x'')"
  have 1: "is_route ''POST'' ''/api/auth/signin'' ?r"
    by (simp add: is_route_def post_def url_pathname_def)
  have 2: "parseBody (req_body ?r) = Some (JObj [(''email'', JStr ''bob@notexists.com''), (''password'', JStr ''x'')])"
    by (simp add: post_def parseBody_def credentials_def)
  have 3: "list_all has_id (users empty_server)"
    by (simp add: empty_server_def)
  from signin_accepts_any_credentials[OF 1 2 _ _ _ _ 3, of "''bob@notexists.com''" "''x''" sample_gen sample_env]
  show ?thesis using 1 3 by simp
qed

section \<open>Only signup writes\<close>

lemma signin_frame: "users (snd (signin gen e r st)) = users st \<and> disk (snd (signin gen e r st)) = disk st"
  by (auto simp: signin_def generateTokens_def Let_def split: option.splits sum.splits prod.splits)

lemma refresh_frame: "users (snd (refresh gen e r st)) = users st \<and> disk (snd (refresh gen e r st)) = disk st"
  by (auto simp: refresh_def generateTokens_def Let_def split: option.splits sum.splits prod.splits)

lemma me_frame: "users (snd (me gen e r st)) = users st \<and> disk (snd (me gen e r st)) = disk st"
  by (auto simp: me_def Let_def split: option.splits sum.splits prod.splits list.splits)

lemma route_at_frame:
  "\<not> (req_method r = ''POST'' \<and> pathname = ''/api/auth/signup'') \<Longrightarrow>
   users (snd (route_at pathname gen e r st)) = users st \<and>
   disk (snd (route_at pathname gen e r st)) = disk st"
  by (auto simp: route_at_def Let_def signin_frame refresh_frame me_frame)

lemma handle_at_frame:
  "\<not> (req_method r = ''POST'' \<and> pathname = ''/api/auth/signup'') \<Longrightarrow>
   users (snd (handleRequest_at pathname gen e r st)) = users st \<and>
   disk (snd (handleRequest_at pathname gen e r st)) = disk st"
  using route_at_frame[of r pathname gen e st]
  by (auto simp: handleRequest_at_def split: prod.splits sum.splits)

lemma handle_at_signin:
  "req_method r = ''POST'' \<Longrightarrow>
   handleRequest_at ''/api/auth/signin'' gen e r st =
     (case signin gen e r st of
        (Inr resp, st') \<Rightarrow> (resp, st')
      | (Inl x, st') \<Rightarrow> (sendJSON 500 (detail ''Internal server error''), st'))"
  by (simp add: handleRequest_at_def route_at_def)

lemma handle_at_signup:
  "req_method r = ''POST'' \<Longrightarrow>
   handleRequest_at ''/api/auth/signup'' gen e r st =
     (case signup gen e r st of
        (Inr resp, st') \<Rightarrow> (resp, st')
      | (Inl x, st') \<Rightarrow> (sendJSON 500 (detail ''Internal server error''), st'))"
  by (simp add: handleRequest_at_def route_at_def)

text \<open>
  A generator that never repeats itself draws an identifier that no record has, when
  every stored identifier is one of its earlier values.
\<close>

lemma drawn_not_stored:
  assumes "inj gen" and "ids_drawn gen st"
  shows "Some (JStr (gen (drawn st))) \<notin> id_of ` (set (users st) \<union> set (disk st))"
proof
  assume "Some (JStr (gen (drawn st))) \<in> id_of ` (set (users st) \<union> set (disk st))"
  then obtain u where u: "u \<in> set (users st) \<union> set (disk st)"
    and eq: "Some (JStr (gen (drawn st))) = id_of u"
    by (rule imageE)
  from assms(2) u have "id_of u \<in> (\<lambda>k. Some (JStr (gen k))) ` {..<drawn st}"
    unfolding ids_drawn_def by (rule bspec)
  then obtain k where k: "k \<in> {..<drawn st}" and "id_of u = Some (JStr (gen k))"
    by (rule imageE)
  with eq have "gen k = gen (drawn st)" by simp
  with assms(1) have "k = drawn st" by (rule injD)
  with k show False by simp
qed

lemma inj_sample_gen: "inj sample_gen"
proof (rule injI)
  fix m n assume "sample_gen m = sample_gen n"
  then have "replicate m (CHR ''i'') = replicate n (CHR ''i'')" by (simp add: sample_gen_def)
  then have "length (replicate m (CHR ''i'')) = length (replicate n (CHR ''i''))" by simp
  then show "m = n" by simp
qed

text \<open>
  Claim C2. Whatever pathname the URL parser returns for the request target, a request
  other than a \<^verbatim>\<open>POST\<close> with the pathname \<^verbatim>\<open>/api/auth/signup\<close> (signin, refresh, profile
  fetch, health, a preflight, an unmatched route) leaves the Collection and the snapshot
  as they were, also when it is answered 500. In particular a signin for an email
  without a record is answered 200 with the identifier just drawn from the generator,
  and that identifier is in neither afterwards, when the generator never repeats itself
  and every stored identifier is one of its earlier values (\<open>ids_drawn\<close>, which holds
  of the empty Collection and which every request preserves, see
  \<open>handle_at_keeps_ids_drawn\<close> below).
\<close>

theorem only_signup_mutates:
  "(\<not> (req_method r = ''POST'' \<and> pathname = ''/api/auth/signup'') \<longrightarrow>
      users (snd (handleRequest_at pathname gen e r st)) = users st \<and>
      disk (snd (handleRequest_at pathname gen e r st)) = disk st)
   \<and> (req_method r = ''POST'' \<and> pathname = ''/api/auth/signin'' \<and>
       parseBody (req_body r) = Some (JObj kvs) \<and>
       map_of kvs ''email'' = Some (JStr em) \<and> em \<noteq> [] \<and>
       map_of kvs ''password'' = Some (JStr pw) \<and> pw \<noteq> [] \<and>
       find_by_email (users st) (Some (JStr em)) = Inr None \<and>
       inj gen \<and> ids_drawn gen st \<longrightarrow>
         resp_status (fst (handleRequest_at pathname gen e r st)) = 200 \<and>
         body_field (fst (handleRequest_at pathname gen e r st)) ''user_id'' = Some (JStr (gen (drawn st))) \<and>
         body_field (fst (handleRequest_at pathname gen e r st)) ''user_id''
           \<notin> id_of ` (set (users (snd (handleRequest_at pathname gen e r st)))
                     \<union> set (disk (snd (handleRequest_at pathname gen e r st)))))"
proof -
  have frame: "\<not> (req_method r = ''POST'' \<and> pathname = ''/api/auth/signup'') \<longrightarrow>
      users (snd (handleRequest_at pathname gen e r st)) = users st \<and>
      disk (snd (handleRequest_at pathname gen e r st)) = disk st"
    using handle_at_frame by blast
  have ghost: "resp_status (fst (handleRequest_at pathname gen e r st)) = 200 \<and>
         body_field (fst (handleRequest_at pathname gen e r st)) ''user_id'' = Some (JStr (gen (drawn st))) \<and>
         body_field (fst (handleRequest_at pathname gen e r st)) ''user_id''
           \<notin> id_of ` (set (users (snd (handleRequest_at pathname gen e r st)))
                     \<union> set (disk (snd (handleRequest_at pathname gen e r st))))"
    if post: "req_method r = ''POST''" and path: "pathname = ''/api/auth/signin''"
      and body: "parseBody (req_body r) = Some (JObj kvs)"
      and email: "map_of kvs ''email'' = Some (JStr em)" "em \<noteq> []"
      and password: "map_of kvs ''password'' = Some (JStr pw)" "pw \<noteq> []"
      and unknown: "find_by_email (users st) (Some (JStr em)) = Inr None"
      and unique: "inj gen" and stored: "ids_drawn gen st"
  proof -
    have pw: "truthy (Some (JStr pw))" using password by simp
    have h: "handleRequest_at pathname gen e r st = (sendJSON 200 (JObj
        [(''user_id'', JStr (gen (drawn st))),
         (''access_token'', JStr (''mock_access_token_'' @ gen (Suc (drawn st)))),
         (''refresh_token'', JStr (''mock_refresh_token_'' @ gen (Suc (Suc (drawn st))))),
         (''token_type'', JStr ''bearer'')]),
       st\<lparr>drawn := drawn st + 3\<rparr>)"
      using signin_ghost[OF body email password(1) pw unknown, of gen e]
      by (simp add: path handle_at_signin[OF post])
    show ?thesis using drawn_not_stored[OF unique stored]
      by (simp add: h sendJSON_def body_field_def)
  qed
  show ?thesis using frame ghost by blast
qed

theorem only_signup_mutates_witness:
  "inj sample_gen \<and> ids_drawn sample_gen alice_server
   \<and> find_by_email (users alice_server) (Some (JStr ''bob@notexists.com'')) = Inr None
   \<and> users (snd (handleRequest_at ''/api/auth/signin'' sample_gen sample_env
        (post ''/api/auth/signin'' (credentials ''bob@notexists.com'' ''x'')) alice_server)) = [alice_record]
   \<and> disk (snd (handleRequest_at ''/api/auth/signin'' sample_gen sample_env
        (post ''/api/auth/signin'' (credentials ''bob@notexists.com'' ''x'')) alice_server)) = [alice_record]
   \<and> resp_status (fst (handleRequest_at ''/api/auth/signin'' sample_gen sample_env
        (post ''/api/auth/signin'' (credentials ''bob@notexists.com'' ''x'')) alice_server)) = 200
   \<and> body_field (fst (handleRequest_at ''/api/auth/signin'' sample_gen sample_env
        (post ''/api/auth/signin'' (credentials ''bob@notexists.com'' ''x'')) alice_server)) ''user_id''
      = Some (JStr ''uuid-iii'')
   \<and> Some (JStr ''uuid-iii'') \<notin> id_of ` (set (users (snd (handleRequest_at ''/api/auth/signin''
          sample_gen sample_env
          (post ''/api/auth/signin'' (credentials ''bob@notexists.com'' ''x'')) alice_server)))
        \<union> set (disk (snd (handleRequest_at ''/api/auth/signin'' sample_gen sample_env
          (post ''/api/auth/signin'' (credentials ''bob@notexists.com'' ''x'')) alice_server))))"
proof -
  let ?r = "post ''/api/auth/signin'' (credentials ''bob@notexists.com'' ''x'')"
  let ?h = "handleRequest_at ''/api/auth/signin'' sample_gen sample_env ?r alice_server"
  note t = only_signup_mutates[of ?r "''/api/auth/signin''" sample_gen sample_env alice_server
      "[(''email'', JStr ''bob@notexists.com''), (''password'', JStr ''x'')]" "''bob@notexists.com''" "''x''"]
  have 1: "req_method ?r = ''POST''" by (simp add: post_def)
  have 3: "parseBody (req_body ?r) = Some (JObj [(''email'', JStr ''bob@notexists.com''), (''password'', JStr ''x'')])"
    by (simp add: post_def parseBody_def credentials_def)
  have 4: "find_by_email (users alice_server) (Some (JStr ''bob@notexists.com'')) = Inr None"
    by (simp add: alice_server_def alice_record_def strict_eq_def)
  have "Some (JStr ''uuid-'') = (\<lambda>k. Some (JStr (sample_gen k))) 0" by (simp add: sample_gen_def)
  moreover have "(0::nat) \<in> {..<3}" by simp
  ultimately have "Some (JStr ''uuid-'') \<in> (\<lambda>k. Some (JStr (sample_gen k))) ` {..<3}"
    by (rule image_eqI)
  then have 5: "ids_drawn sample_gen alice_server"
    by (simp add: ids_drawn_def alice_server_def alice_record_def id_of_def)
  have 6: "sample_gen (drawn alice_server) = ''uuid-iii''"
    by (simp add: alice_server_def sample_gen_def numeral_3_eq_3)
  have 7: "users alice_server = [alice_record]" "disk alice_server = [alice_record]"
    by (simp_all add: alice_server_def)
  have a: "users (snd ?h) = users alice_server \<and> disk (snd ?h) = disk alice_server"
    by (rule t[THEN conjunct1, THEN mp]) simp
  have c: "resp_status (fst ?h) = 200 \<and>
      body_field (fst ?h) ''user_id'' = Some (JStr (sample_gen (drawn alice_server))) \<and>
      body_field (fst ?h) ''user_id'' \<notin> id_of ` (set (users (snd ?h)) \<union> set (disk (snd ?h)))"
    by (rule t[THEN conjunct2, THEN mp]) (simp add: 1 3 4 5 inj_sample_gen)
  from c have d: "Some (JStr ''uuid-iii'') \<notin> id_of ` (set (users (snd ?h)) \<union> set (disk (snd ?h)))"
    unfolding 6 by (elim conjE) (erule subst)
  from a have a': "users (snd ?h) = [alice_record]" "disk (snd ?h) = [alice_record]"
    unfolding 7 by (rule conjunct1, rule conjunct2)
  from c have b: "resp_status (fst ?h) = 200"
    and c': "body_field (fst ?h) ''user_id'' = Some (JStr ''uuid-iii'')"
    unfolding 6 by (rule conjunct1, rule conjunct2[THEN conjunct1])
  show ?thesis
    by (intro conjI inj_sample_gen 5 4 a' b c' d)
qed

section \<open>The shape of signin and signup responses\<close>

lemma signin_200_cases:
  assumes "signin gen e r st = (Inr resp, st')" and "resp_status resp = 200"
    and "\<And>tk :: tokens. P (sendJSON 200 (JObj
            [(''user_id'', JStr (gen (drawn st))),
             (''access_token'', JStr (access_token tk)),
             (''refresh_token'', JStr (refresh_token tk)),
             (''token_type'', JStr ''bearer'')]))"
    and "\<And>u (tk :: tokens). u \<in> set (users st) \<Longrightarrow> P (sendJSON 200 (JObj (stringify_obj
            [(''user_id'', own_prop u ''user_id''),
             (''access_token'', Some (JStr (access_token tk))),
             (''refresh_token'', Some (JStr (refresh_token tk))),
             (''token_type'', Some (JStr ''bearer''))])))"
  shows "P resp"
  using assms(1,2)
  apply (auto simp: signin_def resp_status_sendJSON Let_def
      dest!: find_by_email_in split: option.splits sum.splits prod.splits if_splits)
   apply (rule assms(3))
  apply (rule assms(4))
  apply assumption
  done

lemma signin_200:
  assumes "signin gen e r st = (Inr resp, st')" and "resp_status resp = 200"
  shows "''name'' \<notin> set (body_keys resp) \<and> ''email'' \<notin> set (body_keys resp) \<and>
         (list_all has_id (users st) \<longrightarrow>
            body_keys resp = [''user_id'', ''access_token'', ''refresh_token'', ''token_type''])"
proof (rule signin_200_cases[OF assms])
  fix tk :: tokens
  show "''name'' \<notin> set (body_keys (sendJSON 200 (JObj
            [(''user_id'', JStr (gen (drawn st))),
             (''access_token'', JStr (access_token tk)),
             (''refresh_token'', JStr (refresh_token tk)),
             (''token_type'', JStr ''bearer'')]))) \<and>
        ''email'' \<notin> set (body_keys (sendJSON 200 (JObj
            [(''user_id'', JStr (gen (drawn st))),
             (''access_token'', JStr (access_token tk)),
             (''refresh_token'', JStr (refresh_token tk)),
             (''token_type'', JStr ''bearer'')]))) \<and>
        (list_all has_id (users st) \<longrightarrow>
           body_keys (sendJSON 200 (JObj
            [(''user_id'', JStr (gen (drawn st))),
             (''access_token'', JStr (access_token tk)),
             (''refresh_token'', JStr (refresh_token tk)),
             (''token_type'', JStr ''bearer'')])) = [''user_id'', ''access_token'', ''refresh_token'', ''token_type''])"
    by (simp add: body_keys_def resp_body_sendJSON)
next
  fix u and tk :: tokens
  let ?resp = "sendJSON 200 (JObj (stringify_obj
            [(''user_id'', own_prop u ''user_id''),
             (''access_token'', Some (JStr (access_token tk))),
             (''refresh_token'', Some (JStr (refresh_token tk))),
             (''token_type'', Some (JStr ''bearer''))]))"
  assume u: "u \<in> set (users st)"
  have k: "body_keys ?resp = (if own_prop u ''user_id'' = None then [] else [''user_id''])
       @ [''access_token'', ''refresh_token'', ''token_type'']"
    by (cases "own_prop u ''user_id''") (simp_all add: body_keys_def resp_body_sendJSON)
  have "own_prop u ''user_id'' \<noteq> None" if "list_all has_id (users st)"
    using that u has_id_prop[of u] by (auto simp: list_all_iff)
  then show "''name'' \<notin> set (body_keys ?resp) \<and> ''email'' \<notin> set (body_keys ?resp) \<and>
      (list_all has_id (users st) \<longrightarrow>
        body_keys ?resp = [''user_id'', ''access_token'', ''refresh_token'', ''token_type''])"
    by (auto simp add: k)
qed

lemma signup_200:
  assumes "signup gen e r st = (Inr resp, st')" and "resp_status resp = 200"
  shows "body_keys resp = [''user_id'', ''name'', ''email'', ''access_token'', ''refresh_token'']"
  using assms
  by (auto simp: signup_def resp_status_sendJSON resp_body_sendJSON Let_def body_keys_def
       split: option.splits sum.splits prod.splits if_splits)

text \<open>
  Claim C3. A signin answered 200 never carries \<open>name\<close> or \<open>email\<close>, and its keys are
  exactly \<open>user_id\<close>, \<open>access_token\<close>, \<open>refresh_token\<close>, \<open>token_type\<close> when the stored
  records are objects with a string \<open>user_id\<close>; a signup answered 200 carries exactly
  \<open>user_id\<close>, \<open>name\<close>, \<open>email\<close>, \<open>access_token\<close> and \<open>refresh_token\<close>.
\<close>

theorem signin_and_signup_response_keys:
  "(is_route ''POST'' ''/api/auth/signin'' r \<and> resp_status (fst (handleRequest gen e r st)) = 200 \<longrightarrow>
      ''name'' \<notin> set (body_keys (fst (handleRequest gen e r st))) \<and>
      ''email'' \<notin> set (body_keys (fst (handleRequest gen e r st))) \<and>
      (list_all has_id (users st) \<longrightarrow>
         body_keys (fst (handleRequest gen e r st)) =
           [''user_id'', ''access_token'', ''refresh_token'', ''token_type'']))
   \<and> (is_route ''POST'' ''/api/auth/signup'' r \<and> resp_status (fst (handleRequest gen e r st)) = 200 \<longrightarrow>
      body_keys (fst (handleRequest gen e r st)) =
        [''user_id'', ''name'', ''email'', ''access_token'', ''refresh_token''])"
proof -
  have a: "''name'' \<notin> set (body_keys (fst (handleRequest gen e r st))) \<and>
      ''email'' \<notin> set (body_keys (fst (handleRequest gen e r st))) \<and>
      (list_all has_id (users st) \<longrightarrow>
         body_keys (fst (handleRequest gen e r st)) =
           [''user_id'', ''access_token'', ''refresh_token'', ''token_type''])"
    if "is_route ''POST'' ''/api/auth/signin'' r" "resp_status (fst (handleRequest gen e r st)) = 200"
  proof -
    have "signin gen e r st = (Inr (fst (handleRequest gen e r st)), snd (handleRequest gen e r st))"
      using handle_200[OF that(1) _ that(2)] by (simp add: route_signin[OF that(1)])
    from signin_200[OF this that(2)] show ?thesis .
  qed
  have b: "body_keys (fst (handleRequest gen e r st)) =
        [''user_id'', ''name'', ''email'', ''access_token'', ''refresh_token'']"
    if "is_route ''POST'' ''/api/auth/signup'' r" "resp_status (fst (handleRequest gen e r st)) = 200"
  proof -
    have "signup gen e r st = (Inr (fst (handleRequest gen e r st)), snd (handleRequest gen e r st))"
      using handle_200[OF that(1) _ that(2)] by (simp add: route_signup[OF that(1)])
    from signup_200[OF this that(2)] show ?thesis .
  qed
  show ?thesis using a b by blast
qed

theorem signin_and_signup_response_keys_witness:
  "resp_status (fst (handleRequest sample_gen sample_env
      (post ''/api/auth/signin'' (credentials ''alice@example.com'' ''anypassword'')) alice_server)) = 200
   \<and> body_keys (fst (handleRequest sample_gen sample_env
      (post ''/api/auth/signin'' (credentials ''alice@example.com'' ''anypassword'')) alice_server))
      = [''user_id'', ''access_token'', ''refresh_token'', ''token_type'']
   \<and> resp_status (fst (handleRequest sample_gen sample_env
      (post ''/api/auth/signup'' (credentials ''charlie@example.com'' ''password123'')) alice_server)) = 200
   \<and> body_keys (fst (handleRequest sample_gen sample_env
      (post ''/api/auth/signup'' (credentials ''charlie@example.com'' ''password123'')) alice_server))
      = [''user_id'', ''name'', ''email'', ''access_token'', ''refresh_token'']"
proof -
  let ?r1 = "post ''/api/auth/signin'' (credentials ''alice@example.com'' ''anypassword'')"
  let ?r2 = "post ''/api/auth/signup'' (credentials ''charlie@example.com'' ''password123'')"
  have 1: "is_route ''POST'' ''/api/auth/signin'' ?r1"
    by (simp add: is_route_def post_def url_pathname_def)
  have 2: "is_route ''POST'' ''/api/auth/signup'' ?r2"
    by (simp add: is_route_def post_def url_pathname_def)
  have 3: "list_all has_id (users alice_server)"
    by (simp add: alice_server_def alice_record_def)
  have 4: "resp_status (fst (handleRequest sample_gen sample_env ?r1 alice_server)) = 200"
    by (simp add: run_defs sample_defs)
  have 5: "resp_status (fst (handleRequest sample_gen sample_env ?r2 alice_server)) = 200"
    by (simp add: run_defs sample_defs)
  from signin_and_signup_response_keys[of ?r1 sample_gen sample_env alice_server]
       signin_and_signup_response_keys[of ?r2 sample_gen sample_env alice_server]
       1 2 3 4 5
  show ?thesis by simp
qed

section \<open>Profile fetch looks at the bearer prefix only\<close>

lemma me_unauthenticated:
  "\<not> bearer r \<Longrightarrow> me gen e r st = (Inr (sendJSON 401 (detail ''Not authenticated'')), st)"
  by (auto simp: me_def bearer_def split: option.splits)

lemma me_bearer_eq: "bearer r \<Longrightarrow> bearer r' \<Longrightarrow> me gen e r st = me gen e r' st"
  by (auto simp: me_def bearer_def split: option.splits)

lemma me_bearer_status:
  "bearer r \<Longrightarrow> me gen e r st = (res, st') \<Longrightarrow>
   (case res of Inl x \<Rightarrow> True | Inr resp \<Rightarrow> resp_status resp = 200)"
  by (auto simp: me_def bearer_def resp_status_sendJSON Let_def
      split: option.splits list.splits if_splits prod.splits sum.splits)

lemma me_bearer_ok:
  assumes "bearer r" and "list_all user_record (users st)"
  shows "\<exists>resp st'. me gen e r st = (Inr resp, st') \<and> resp_status resp = 200"
proof (cases "users st")
  case Nil
  with assms(1) show ?thesis
    by (auto simp: me_def bearer_def mock_admin_def interpolates_def resp_status_sendJSON Let_def
        split: option.splits)
next
  case (Cons u us)
  with assms(2) have "user_record u" by simp
  then obtain kvs m where u: "u = JObj kvs" "map_of kvs ''email'' = Some (JStr m)"
    by (cases u) (auto simp: is_str_iff)
  with assms(1) Cons show ?thesis
    by (auto simp: me_def bearer_def interpolates_def resp_status_sendJSON Let_def
        split: option.splits)
qed

text \<open>
  Claim C6. A profile fetch whose Authorization header starts with \<^verbatim>\<open>Bearer \<close> is to
  be answered 200, whatever the token. The handler writes the email of the first record
  into a log line before it answers, and signup stores any truthy email. After a signup
  whose email is an object with an own \<open>toString\<close> property (the record is stored, and
  the signup is itself answered 500 by its own log line), a profile fetch with a bearer
  header is answered 500 with the detail \<^verbatim>\<open>Internal server error\<close>.
\<close>

theorem me_fails_after_shadowing_signup:
  "map resp_status (fst (run sample_gen
      [(sample_env, post ''/api/auth/signup''
          (JObj [(''email'', shadowing_email), (''password'', JStr ''x''), (''name'', JStr ''n'')])),
       (sample_env, get_with ''/api/auth/me'' (Some ''Bearer mock_token''))]
      empty_server)) = [500, 500]
   \<and> map email_of (users (snd (run sample_gen
      [(sample_env, post ''/api/auth/signup''
          (JObj [(''email'', shadowing_email), (''password'', JStr ''x''), (''name'', JStr ''n'')]))]
      empty_server))) = [Some shadowing_email]
   \<and> bearer (get_with ''/api/auth/me'' (Some ''Bearer mock_token''))
   \<and> resp_status (fst (handleRequest sample_gen sample_env
        (get_with ''/api/auth/me'' (Some ''Bearer mock_token''))
        (snd (run sample_gen
          [(sample_env, post ''/api/auth/signup''
              (JObj [(''email'', shadowing_email), (''password'', JStr ''x''), (''name'', JStr ''n'')]))]
          empty_server)))) = 500
   \<and> resp_body (fst (handleRequest sample_gen sample_env
        (get_with ''/api/auth/me'' (Some ''Bearer mock_token''))
        (snd (run sample_gen
          [(sample_env, post ''/api/auth/signup''
              (JObj [(''email'', shadowing_email), (''password'', JStr ''x''), (''name'', JStr ''n'')]))]
          empty_server)))) = Some (JObj [(''detail'', JStr ''Internal server error'')])"
  by (simp add: run_defs sample_defs email_of_def bearer_def)

text \<open>
  What holds in every state: \<^verbatim>\<open>GET /api/auth/me\<close> is answered 401 exactly when the
  Authorization header is absent or does not start with \<^verbatim>\<open>Bearer \<close>, and then with the
  detail \<^verbatim>\<open>Not authenticated\<close>. With the prefix the answer is the same for every
  header that has it (the token behind it is never looked at), and it is 200 when the
  stored records are UserRecords, whose email is a string.
\<close>

theorem me_checks_only_the_bearer_prefix:
  assumes route: "is_route ''GET'' ''/api/auth/me'' r"
  shows "(resp_status (fst (handleRequest gen e r st)) = 401 \<longleftrightarrow> \<not> bearer r)
       \<and> (\<not> bearer r \<longrightarrow>
            resp_body (fst (handleRequest gen e r st)) = Some (JObj [(''detail'', JStr ''Not authenticated'')]))
       \<and> (bearer r \<and> list_all user_record (users st) \<longrightarrow>
            resp_status (fst (handleRequest gen e r st)) = 200)
       \<and> (\<forall>h'. bearer r \<and> prefix ''Bearer '' h' \<longrightarrow>
            handleRequest gen e (r\<lparr>req_authorization := Some h'\<rparr>) st = handleRequest gen e r st)"
proof -
  have h: "handleRequest gen e r st = (case me gen e r st of
        (Inr resp, st') \<Rightarrow> (resp, st')
      | (Inl x, st') \<Rightarrow> (sendJSON 500 (detail ''Internal server error''), st'))"
    using route by (simp add: handle_route route_me)
  have h': "handleRequest gen e (r\<lparr>req_authorization := a\<rparr>) st =
      (case me gen e (r\<lparr>req_authorization := a\<rparr>) st of
        (Inr resp, st') \<Rightarrow> (resp, st')
      | (Inl x, st') \<Rightarrow> (sendJSON 500 (detail ''Internal server error''), st'))" for a
  proof -
    have "is_route ''GET'' ''/api/auth/me'' (r\<lparr>req_authorization := a\<rparr>)"
      using route by (simp add: is_route_def)
    then show ?thesis by (simp add: handle_route route_me)
  qed
  have no: "resp_status (fst (handleRequest gen e r st)) = 401 \<and>
      resp_body (fst (handleRequest gen e r st)) = Some (JObj [(''detail'', JStr ''Not authenticated'')])"
    if "\<not> bearer r"
    using that by (simp add: h me_unauthenticated resp_status_sendJSON resp_body_sendJSON detail_def)
  have yes: "resp_status (fst (handleRequest gen e r st)) \<noteq> 401" if "bearer r"
    using me_bearer_status[OF that, of gen e st "fst (me gen e r st)" "snd (me gen e r st)"]
    by (auto simp: h resp_status_sendJSON split: prod.splits sum.splits)
  have ok: "resp_status (fst (handleRequest gen e r st)) = 200"
    if "bearer r" "list_all user_record (users st)"
    using me_bearer_ok[OF that, of gen e] by (auto simp: h)
  have same: "handleRequest gen e (r\<lparr>req_authorization := Some h'\<rparr>) st = handleRequest gen e r st"
    if "bearer r" "prefix ''Bearer '' h'" for h'
  proof -
    have "bearer (r\<lparr>req_authorization := Some h'\<rparr>)" using that(2) by (simp add: bearer_def)
    from me_bearer_eq[OF this that(1)] show ?thesis by (simp add: h h')
  qed
  show ?thesis using no yes ok same by blast
qed

theorem me_checks_only_the_bearer_prefix_witness:
  "is_route ''GET'' ''/api/auth/me'' (get_with ''/api/auth/me'' (Some ''Bearer totally_fake_token_12345''))
   \<and> bearer (get_with ''/api/auth/me'' (Some ''Bearer totally_fake_token_12345''))
   \<and> list_all user_record (users alice_server)
   \<and> resp_status (fst (handleRequest sample_gen sample_env
        (get_with ''/api/auth/me'' (Some ''Bearer totally_fake_token_12345'')) alice_server)) = 200
   \<and> \<not> bearer (get_with ''/api/auth/me'' None)
   \<and> resp_status (fst (handleRequest sample_gen sample_env (get_with ''/api/auth/me'' None) alice_server)) = 401
   \<and> resp_body (fst (handleRequest sample_gen sample_env (get_with ''/api/auth/me'' None) alice_server))
      = Some (JObj [(''detail'', JStr ''Not authenticated'')])"
proof -
  let ?r1 = "get_with ''/api/auth/me'' (Some ''Bearer totally_fake_token_12345'')"
  let ?r2 = "get_with ''/api/auth/me'' None"
  have 1: "is_route ''GET'' ''/api/auth/me'' ?r1" "is_route ''GET'' ''/api/auth/me'' ?r2"
    by (simp_all add: is_route_def get_with_def url_pathname_def)
  have 2: "bearer ?r1" "\<not> bearer ?r2"
    by (simp_all add: bearer_def get_with_def)
  have 3: "list_all user_record (users alice_server)"
    by (simp add: alice_server_def alice_record_def)
  from me_checks_only_the_bearer_prefix[OF 1(1), of sample_gen sample_env alice_server]
       me_checks_only_the_bearer_prefix[OF 1(2), of sample_gen sample_env alice_server]
       1 2 3
  show ?thesis by simp
qed

section \<open>The two validation tiers of signup\<close>

lemma signup_missing:
  assumes "parseBody (req_body r) = Some (JObj kvs)"
    and "map_of kvs ''email'' = None \<or> map_of kvs ''password'' = None"
  shows "signup gen e r st = (Inr (sendJSON 422 missing_field), st)"
  using assms by (auto simp: signup_def)

lemma signup_empty:
  assumes "parseBody (req_body r) = Some (JObj kvs)"
    and "map_of kvs ''email'' \<noteq> None" and "map_of kvs ''password'' \<noteq> None"
    and "\<not> truthy (map_of kvs ''email'') \<or> \<not> truthy (map_of kvs ''password'')"
  shows "signup gen e r st = (Inr (sendJSON 400 (detail ''Email and password are required'')), st)"
  using assms by (auto simp: signup_def)

text \<open>
  Claim C5, as the code has it. For a signup whose body is an object: when \<open>email\<close> or
  \<open>password\<close> is absent the answer is 422 and its \<open>detail\<close> is a list of exactly one
  entry, with the location tag \<^verbatim>\<open>["body", "field"]\<close>, the message
  \<^verbatim>\<open>field required\<close> and the type \<^verbatim>\<open>value_error.missing\<close>, whichever and however many
  fields are absent; when both are present and one of them is falsy (the empty string
  in particular) the answer is 400 with the flat detail
  \<^verbatim>\<open>Email and password are required\<close>.
\<close>

theorem signup_validation_tiers:
  assumes route: "is_route ''POST'' ''/api/auth/signup'' r"
    and body: "parseBody (req_body r) = Some (JObj kvs)"
  shows "(map_of kvs ''email'' = None \<or> map_of kvs ''password'' = None \<longrightarrow>
            resp_status (fst (handleRequest gen e r st)) = 422 \<and>
            resp_body (fst (handleRequest gen e r st)) = Some (JObj [(''detail'', JArr [JObj
               [(''loc'', JArr [JStr ''body'', JStr ''field'']),
                (''msg'', JStr ''field required''),
                (''type'', JStr ''value_error.missing'')]])]))
       \<and> (map_of kvs ''email'' \<noteq> None \<and> map_of kvs ''password'' \<noteq> None \<and>
          (\<not> truthy (map_of kvs ''email'') \<or> \<not> truthy (map_of kvs ''password'')) \<longrightarrow>
            resp_status (fst (handleRequest gen e r st)) = 400 \<and>
            resp_body (fst (handleRequest gen e r st)) =
              Some (JObj [(''detail'', JStr ''Email and password are required'')]))"
proof -
  have h: "handleRequest gen e r st = (case signup gen e r st of
        (Inr resp, st') \<Rightarrow> (resp, st')
      | (Inl x, st') \<Rightarrow> (sendJSON 500 (detail ''Internal server error''), st'))"
    using route by (simp add: handle_route route_signup)
  have a: "resp_status (fst (handleRequest gen e r st)) = 422 \<and>
            resp_body (fst (handleRequest gen e r st)) = Some (JObj [(''detail'', JArr [JObj
               [(''loc'', JArr [JStr ''body'', JStr ''field'']),
                (''msg'', JStr ''field required''),
                (''type'', JStr ''value_error.missing'')]])])"
    if "map_of kvs ''email'' = None \<or> map_of kvs ''password'' = None"
    by (simp add: h signup_missing[OF body that] resp_status_sendJSON resp_body_sendJSON missing_field_def)
  have b: "resp_status (fst (handleRequest gen e r st)) = 400 \<and>
            resp_body (fst (handleRequest gen e r st)) =
              Some (JObj [(''detail'', JStr ''Email and password are required'')])"
    if "map_of kvs ''email'' \<noteq> None" "map_of kvs ''password'' \<noteq> None"
       "\<not> truthy (map_of kvs ''email'') \<or> \<not> truthy (map_of kvs ''password'')"
    by (simp add: h signup_empty[OF body that] resp_status_sendJSON resp_body_sendJSON detail_def)
  show ?thesis using a b by blast
qed

theorem signup_validation_tiers_witness:
  "resp_status (fst (handleRequest sample_gen sample_env
      (post ''/api/auth/signup'' (JObj [(''password'', JStr ''test123'')])) empty_server)) = 422
   \<and> resp_body (fst (handleRequest sample_gen sample_env
      (post ''/api/auth/signup'' (JObj [(''password'', JStr ''test123'')])) empty_server)) =
      Some (JObj [(''detail'', JArr [JObj
               [(''loc'', JArr [JStr ''body'', JStr ''field'']),
                (''msg'', JStr ''field required''),
                (''type'', JStr ''value_error.missing'')]])])
   \<and> resp_status (fst (handleRequest sample_gen sample_env
      (post ''/api/auth/signup'' (credentials [] ''test123'')) empty_server)) = 400
   \<and> resp_body (fst (handleRequest sample_gen sample_env
      (post ''/api/auth/signup'' (credentials [] ''test123'')) empty_server)) =
      Some (JObj [(''detail'', JStr ''Email and password are required'')])"
proof -
  let ?r1 = "post ''/api/auth/signup'' (JObj [(''password'', JStr ''test123'')])"
  let ?r2 = "post ''/api/auth/signup'' (credentials [] ''test123'')"
  have 1: "is_route ''POST'' ''/api/auth/signup'' ?r1" "is_route ''POST'' ''/api/auth/signup'' ?r2"
    by (simp_all add: is_route_def post_def url_pathname_def)
  have 2: "parseBody (req_body ?r1) = Some (JObj [(''password'', JStr ''test123'')])"
    "parseBody (req_body ?r2) = Some (JObj [(''email'', JStr []), (''password'', JStr ''test123'')])"
    by (simp_all add: post_def parseBody_def credentials_def)
  from signup_validation_tiers[OF 1(1) 2(1), of sample_gen sample_env empty_server]
       signup_validation_tiers[OF 1(2) 2(2), of sample_gen sample_env empty_server]
  show ?thesis by simp
qed

text \<open>
  The claim as first stated asks for one entry per missing field. An empty object lacks
  both fields and is answered with a single entry.
\<close>

theorem signup_missing_both_counterexample:
  "resp_status (fst (handleRequest sample_gen sample_env (post ''/api/auth/signup'' (JObj [])) empty_server)) = 422
   \<and> missing_fields [] = [''email'', ''password'']
   \<and> length (detail_entries (fst (handleRequest sample_gen sample_env
        (post ''/api/auth/signup'' (JObj [])) empty_server))) = 1
   \<and> length (detail_entries (fst (handleRequest sample_gen sample_env
        (post ''/api/auth/signup'' (JObj [])) empty_server))) \<noteq> length (missing_fields [])"
  by (simp add: run_defs sample_defs detail_entries_def missing_fields_def body_field_def)

section \<open>Refresh and the tokens issued so far\<close>

text \<open>
  Every response of a session carries, as its \<open>access_token\<close>, the mock prefix
  followed by a value the generator returned while that request was handled.
\<close>

lemma map_of_stringify_absent:
  "k \<notin> fst ` set kvs \<Longrightarrow> map_of (stringify_obj kvs) k = None"
  by (induction kvs rule: stringify_obj.induct) auto

lemma body_field_sendJSON: "body_field (sendJSON n (JObj kvs)) k = map_of kvs k"
  by (simp add: body_field_def sendJSON_def)

lemma body_field_detail [simp]: "body_field (sendJSON n (detail m)) ''access_token'' = None"
  by (simp add: body_field_def sendJSON_def detail_def)

lemma body_field_rec_detail [simp]:
  "body_field \<lparr>resp_status = n, resp_headers = hs, resp_body = Some (detail m)\<rparr> ''access_token'' = None"
  by (simp add: body_field_def detail_def)

lemma own_prop_detail [simp]: "own_prop (detail m) ''access_token'' = None"
  by (simp add: detail_def)

lemma access_token_from_detail: "access_token_from gen lo hi (sendJSON n (detail m))"
  by (simp add: access_token_from_def body_field_sendJSON detail_def)


lemma signup_tokens:
  "signup gen e r st = (res, st') \<Longrightarrow>
   drawn st \<le> drawn st' \<and> (case res of Inl x \<Rightarrow> True | Inr resp \<Rightarrow> access_token_from gen (drawn st) (drawn st') resp)"
  by (auto simp: signup_def Let_def generateTokens_def saveDB_def access_token_from_detail
        access_token_from_def body_field_sendJSON missing_field_def
      split: option.splits sum.splits prod.splits if_splits)

lemma signin_tokens:
  "signin gen e r st = (res, st') \<Longrightarrow>
   drawn st \<le> drawn st' \<and> (case res of Inl x \<Rightarrow> True | Inr resp \<Rightarrow> access_token_from gen (drawn st) (drawn st') resp)"
  apply (auto simp: signin_def Let_def generateTokens_def access_token_from_detail
      split: option.splits sum.splits prod.splits if_splits)
   apply (simp add: access_token_from_def body_field_sendJSON)
  subgoal for b u y ya
    by (cases "own_prop u ''user_id''") (simp_all add: access_token_from_def body_field_sendJSON)
  done

lemma refresh_tokens:
  "refresh gen e r st = (res, st') \<Longrightarrow>
   drawn st \<le> drawn st' \<and> (case res of Inl x \<Rightarrow> True | Inr resp \<Rightarrow> access_token_from gen (drawn st) (drawn st') resp)"
  by (auto simp: refresh_def Let_def generateTokens_def access_token_from_detail
        access_token_from_def body_field_def sendJSON_def tokens_obj_def
      split: option.splits sum.splits prod.splits if_splits)

lemma me_tokens:
  "me gen e r st = (res, st') \<Longrightarrow>
   drawn st \<le> drawn st' \<and> (case res of Inl x \<Rightarrow> True | Inr resp \<Rightarrow> access_token_from gen (drawn st) (drawn st') resp)"
  by (auto simp: me_def Let_def access_token_from_detail
        access_token_from_def body_field_sendJSON map_of_stringify_absent
      split: option.splits sum.splits prod.splits if_splits list.splits)








section \<open>A signup fixes the identifier later signins return\<close>

text \<open>The Collection only grows, at its end, and the lookup returns the first match.\<close>

lemma find_by_email_append:
  "find_by_email xs em = Inr (Some u) \<Longrightarrow> find_by_email (xs @ ys) em = Inr (Some u)"
  by (induction xs) (auto split: if_splits)

lemma find_by_email_snoc:
  "find_by_email xs em = Inr None \<Longrightarrow> u \<noteq> JNull \<Longrightarrow> strict_eq (own_prop u ''email'') em \<Longrightarrow>
   find_by_email (xs @ [u]) em = Inr (Some u)"
  by (induction xs) (auto split: if_splits)

lemma signup_users: "\<exists>ys. users (snd (signup gen e r st)) = users st @ ys"
  by (auto simp: signup_def Let_def generateTokens_def saveDB_def
      split: option.splits sum.splits prod.splits)

lemma route_users: "\<exists>ys. users (snd (route gen e r st)) = users st @ ys"
  using signup_users[of gen e r st]
  by (auto simp: route_eq Let_def signin_frame refresh_frame me_frame)

lemma handle_users: "\<exists>ys. users (snd (handleRequest gen e r st)) = users st @ ys"
  using route_users[of gen e r st]
  by (auto simp: handleRequest_eq split: prod.splits sum.splits)

lemma snd_run_Cons:
  "snd (run gen ((e, r) # reqs) st) = snd (run gen reqs (snd (handleRequest gen e r st)))"
  by (simp split: prod.splits)

lemma run_users: "\<exists>ys. users (snd (run gen reqs st)) = users st @ ys"
proof (induction reqs arbitrary: st)
  case Nil
  then show ?case by simp
next
  case (Cons a reqs)
  obtain e r where a: "a = (e, r)" by (cases a)
  obtain ys where 1: "users (snd (handleRequest gen e r st)) = users st @ ys"
    using handle_users by blast
  obtain zs where 2: "users (snd (run gen reqs (snd (handleRequest gen e r st))))
      = users (snd (handleRequest gen e r st)) @ zs"
    using Cons.IH by blast
  show ?case unfolding a snd_run_Cons using 1 2 by simp
qed

lemma signup_created:
  assumes "parseBody (req_body r) = Some (JObj kvs)"
    and "map_of kvs ''email'' = Some (JStr em)" and "em \<noteq> []"
    and "map_of kvs ''password'' = Some pw" and "truthy (Some pw)"
  shows "\<exists>nm. signup gen e r st =
    (Inr (sendJSON 200 (JObj
        [(''user_id'', JStr (gen (drawn st))),
         (''name'', nm),
         (''email'', JStr em),
         (''access_token'', JStr (''mock_access_token_'' @ gen (Suc (drawn st)))),
         (''refresh_token'', JStr (''mock_refresh_token_'' @ gen (Suc (Suc (drawn st)))))])),
     saveDB e (st\<lparr>drawn := Suc (drawn st),
        users := users st @ [JObj
          [(''user_id'', JStr (gen (drawn st))),
           (''name'', nm),
           (''email'', JStr em),
           (''created_at'', JStr (now_iso e)),
           (''is_active'', JBool True),
           (''email_verified'', JBool True),
           (''last_login_at'', JNull)]]\<rparr>)\<lparr>drawn := drawn st + 3\<rparr>)"
  using assms
  by (auto simp: signup_def Let_def default_name_def generateTokens_def saveDB_def interpolates_def
      split: option.splits)

text \<open>
  Claim C4. Let a signup with a non-empty email and password arrive when no record has
  that email. It is answered 200 with a fresh \<open>user_id\<close>, and after any further
  requests handled by the same process (other signups with the same email included) a
  signin with that email is answered 200 with the same \<open>user_id\<close>.
\<close>

theorem signin_returns_the_signup_user_id:
  assumes signup_route: "is_route ''POST'' ''/api/auth/signup'' r0"
    and signup_body: "parseBody (req_body r0) = Some (JObj kvs0)"
    and email0: "map_of kvs0 ''email'' = Some (JStr em)" "em \<noteq> []"
    and password0: "map_of kvs0 ''password'' = Some (JStr pw0)" "pw0 \<noteq> []"
    and first_created: "find_by_email (users st) (Some (JStr em)) = Inr None"
    and signed_up: "handleRequest gen e0 r0 st = (resp0, st1)"
    and later: "run gen reqs st1 = (resps, st2)"
    and signin_route: "is_route ''POST'' ''/api/auth/signin'' r1"
    and signin_body: "parseBody (req_body r1) = Some (JObj kvs1)"
    and email1: "map_of kvs1 ''email'' = Some (JStr em)"
    and password1: "map_of kvs1 ''password'' = Some (JStr pw1)" "pw1 \<noteq> []"
  shows "resp_status resp0 = 200
       \<and> body_field resp0 ''user_id'' = Some (JStr (gen (drawn st)))
       \<and> resp_status (fst (handleRequest gen e1 r1 st2)) = 200
       \<and> body_field (fst (handleRequest gen e1 r1 st2)) ''user_id'' = body_field resp0 ''user_id''"
proof -
  have pw0: "truthy (Some (JStr pw0))" and pw1: "truthy (Some (JStr pw1))"
    using password0 password1 by simp_all
  from signup_created[OF signup_body email0 password0(1) pw0, of gen e0 st]
  obtain nm where s: "signup gen e0 r0 st =
    (Inr (sendJSON 200 (JObj
        [(''user_id'', JStr (gen (drawn st))),
         (''name'', nm),
         (''email'', JStr em),
         (''access_token'', JStr (''mock_access_token_'' @ gen (Suc (drawn st)))),
         (''refresh_token'', JStr (''mock_refresh_token_'' @ gen (Suc (Suc (drawn st)))))])),
     saveDB e0 (st\<lparr>drawn := Suc (drawn st),
        users := users st @ [JObj
          [(''user_id'', JStr (gen (drawn st))),
           (''name'', nm),
           (''email'', JStr em),
           (''created_at'', JStr (now_iso e0)),
           (''is_active'', JBool True),
           (''email_verified'', JBool True),
           (''last_login_at'', JNull)]]\<rparr>)\<lparr>drawn := drawn st + 3\<rparr>)" by blast
  let ?u = "JObj
          [(''user_id'', JStr (gen (drawn st))),
           (''name'', nm),
           (''email'', JStr em),
           (''created_at'', JStr (now_iso e0)),
           (''is_active'', JBool True),
           (''email_verified'', JBool True),
           (''last_login_at'', JNull)]"
  have h0: "handleRequest gen e0 r0 st = (case signup gen e0 r0 st of
        (Inr resp, st') \<Rightarrow> (resp, st')
      | (Inl x, st') \<Rightarrow> (sendJSON 500 (detail ''Internal server error''), st'))"
    using signup_route by (simp add: handle_route route_signup)
  have resp0: "resp0 = sendJSON 200 (JObj
        [(''user_id'', JStr (gen (drawn st))),
         (''name'', nm),
         (''email'', JStr em),
         (''access_token'', JStr (''mock_access_token_'' @ gen (Suc (drawn st)))),
         (''refresh_token'', JStr (''mock_refresh_token_'' @ gen (Suc (Suc (drawn st)))))])"
    and st1: "users st1 = users st @ [?u]"
    using signed_up by (auto simp: h0 s saveDB_def)
  have f1: "find_by_email (users st1) (Some (JStr em)) = Inr (Some ?u)"
    unfolding st1 by (rule find_by_email_snoc[OF first_created]) (simp_all add: strict_eq_def)
  obtain ys where "users (snd (run gen reqs st1)) = users st1 @ ys"
    using run_users by blast
  then have "users st2 = users st1 @ ys" using later by simp
  then have f2: "find_by_email (users st2) (Some (JStr em)) = Inr (Some ?u)"
    using find_by_email_append[OF f1] by simp
  have h1: "handleRequest gen e1 r1 st2 = (case signin gen e1 r1 st2 of
        (Inr resp, st') \<Rightarrow> (resp, st')
      | (Inl x, st') \<Rightarrow> (sendJSON 500 (detail ''Internal server error''), st'))"
    using signin_route by (simp add: handle_route route_signin)
  note s1 = signin_known[OF signin_body email1 email0(2) password1(1) pw1 f2, of gen e1]
  show ?thesis
    by (simp add: resp0 h1 s1 resp_status_sendJSON body_field_sendJSON)
qed

theorem signin_returns_the_signup_user_id_witness:
  "find_by_email (users empty_server) (Some (JStr ''alice@example.com'')) = Inr None
   \<and> resp_status (fst (handleRequest sample_gen sample_env
        (post ''/api/auth/signup'' (credentials ''alice@example.com'' ''securepassword'')) empty_server)) = 200
   \<and> body_field (fst (handleRequest sample_gen sample_env
        (post ''/api/auth/signup'' (credentials ''alice@example.com'' ''securepassword'')) empty_server))
        ''user_id'' = Some (JStr ''uuid-'')
   \<and> resp_status (fst (handleRequest sample_gen sample_env
        (post ''/api/auth/signin'' (credentials ''alice@example.com'' ''anypassword''))
        (snd (run sample_gen
           [(sample_env, post ''/api/auth/signup'' (credentials ''alice@example.com'' ''other'')),
            (sample_env, post ''/api/auth/signin'' (credentials ''bob@notexists.com'' ''x''))]
           (snd (handleRequest sample_gen sample_env
              (post ''/api/auth/signup'' (credentials ''alice@example.com'' ''securepassword''))
              empty_server)))))) = 200
   \<and> body_field (fst (handleRequest sample_gen sample_env
        (post ''/api/auth/signin'' (credentials ''alice@example.com'' ''anypassword''))
        (snd (run sample_gen
           [(sample_env, post ''/api/auth/signup'' (credentials ''alice@example.com'' ''other'')),
            (sample_env, post ''/api/auth/signin'' (credentials ''bob@notexists.com'' ''x''))]
           (snd (handleRequest sample_gen sample_env
              (post ''/api/auth/signup'' (credentials ''alice@example.com'' ''securepassword''))
              empty_server))))))
        ''user_id'' = Some (JStr ''uuid-'')"
proof -
  let ?r0 = "post ''/api/auth/signup'' (credentials ''alice@example.com'' ''securepassword'')"
  let ?r1 = "post ''/api/auth/signin'' (credentials ''alice@example.com'' ''anypassword'')"
  let ?reqs = "[(sample_env, post ''/api/auth/signup'' (credentials ''alice@example.com'' ''other'')),
            (sample_env, post ''/api/auth/signin'' (credentials ''bob@notexists.com'' ''x''))]"
  let ?st1 = "snd (handleRequest sample_gen sample_env ?r0 empty_server)"
  have 1: "is_route ''POST'' ''/api/auth/signup'' ?r0" "is_route ''POST'' ''/api/auth/signin'' ?r1"
    by (simp_all add: is_route_def post_def url_pathname_def)
  have 2: "parseBody (req_body ?r0) = Some (JObj [(''email'', JStr ''alice@example.com''), (''password'', JStr ''securepassword'')])"
    "parseBody (req_body ?r1) = Some (JObj [(''email'', JStr ''alice@example.com''), (''password'', JStr ''anypassword'')])"
    by (simp_all add: post_def parseBody_def credentials_def)
  have 3: "find_by_email (users empty_server) (Some (JStr ''alice@example.com'')) = Inr None"
    by (simp add: empty_server_def)
  have 4: "handleRequest sample_gen sample_env ?r0 empty_server
      = (fst (handleRequest sample_gen sample_env ?r0 empty_server), ?st1)" by simp
  have 5: "run sample_gen ?reqs ?st1 = (fst (run sample_gen ?reqs ?st1), snd (run sample_gen ?reqs ?st1))"
    by simp
  have g: "sample_gen (drawn empty_server) = ''uuid-''"
    by (simp add: sample_gen_def empty_server_def)
  from signin_returns_the_signup_user_id[OF 1(1) 2(1) _ _ _ _ 3 4 5 1(2) 2(2), of "''securepassword''" "''anypassword''" sample_env]
  show ?thesis using 3 by (simp add: g del: run.simps)
qed

section \<open>Query strings\<close>

text \<open>
  Claim C9. The route is to depend on the method and on the path without its query.
  The older server compares the whole request target: with a query string appended,
  the signin it answers 200 on the bare path is answered 404.
\<close>

theorem standalone_query_string_not_found:
  "resp_status (fst (standalone_handleRequest sample_gen sample_env
      (post ''/api/auth/signin'' (credentials ''any@test.com'' ''any'')) empty_server)) = 200
   \<and> resp_status (fst (standalone_handleRequest sample_gen sample_env
      (post ''/api/auth/signin?ref=google'' (credentials ''any@test.com'' ''any'')) empty_server)) = 404
   \<and> resp_body (fst (standalone_handleRequest sample_gen sample_env
      (post ''/api/auth/signin?ref=google'' (credentials ''any@test.com'' ''any'')) empty_server))
      = Some (JObj [(''detail'', JStr ''Not found'')])"
  by (simp add: standalone_handleRequest_def standalone_signin_def standalone_parseBody_def
      standalone_generateTokens_def run_defs sample_defs)

text \<open>
  The newer server routes on the parsed pathname: appending a query string to a target
  that has none changes neither the response nor the state.
\<close>

lemma url_pathname_query:
  "CHR ''?'' \<notin> set p \<Longrightarrow> CHR ''#'' \<notin> set p \<Longrightarrow> url_pathname (p @ CHR ''?'' # q) = p"
  by (induction p) (auto simp: url_pathname_def)

lemma url_pathname_plain:
  "CHR ''?'' \<notin> set p \<Longrightarrow> CHR ''#'' \<notin> set p \<Longrightarrow> url_pathname p = p"
  by (induction p) (auto simp: url_pathname_def)

lemma handlers_ignore_url:
  "signup gen e (r\<lparr>req_url := u\<rparr>) st = signup gen e r st"
  "signin gen e (r\<lparr>req_url := u\<rparr>) st = signin gen e r st"
  "refresh gen e (r\<lparr>req_url := u\<rparr>) st = refresh gen e r st"
  "me gen e (r\<lparr>req_url := u\<rparr>) st = me gen e r st"
  by (simp_all add: signup_def signin_def refresh_def me_def)

theorem query_string_ignored:
  assumes "CHR ''?'' \<notin> set p" and "CHR ''#'' \<notin> set p"
  shows "handleRequest gen e (r\<lparr>req_url := p @ CHR ''?'' # q\<rparr>) st
       = handleRequest gen e (r\<lparr>req_url := p\<rparr>) st"
  using assms
  by (simp add: url_pathname_query url_pathname_plain
      handleRequest_eq route_eq handlers_ignore_url Let_def cong del: if_weak_cong)

theorem query_string_ignored_witness:
  "CHR ''?'' \<notin> set ''/api/auth/signin'' \<and> CHR ''#'' \<notin> set ''/api/auth/signin''
   \<and> handleRequest sample_gen sample_env
        (post ''/api/auth/signin?ref=google&foo=bar'' (credentials ''any@test.com'' ''any'')) empty_server
     = handleRequest sample_gen sample_env
        (post ''/api/auth/signin'' (credentials ''any@test.com'' ''any'')) empty_server
   \<and> resp_status (fst (handleRequest sample_gen sample_env
        (post ''/api/auth/signin?ref=google&foo=bar'' (credentials ''any@test.com'' ''any'')) empty_server)) = 200"
proof -
  have 1: "CHR ''?'' \<notin> set ''/api/auth/signin''" "CHR ''#'' \<notin> set ''/api/auth/signin''"
    by simp_all
  have 2: "resp_status (fst (handleRequest sample_gen sample_env
        (post ''/api/auth/signin'' (credentials ''any@test.com'' ''any'')) empty_server)) = 200"
    by (simp add: run_defs sample_defs)
  from query_string_ignored[OF 1, where gen=sample_gen and e=sample_env
      and r="post ''/api/auth/signin'' (credentials ''any@test.com'' ''any'')"
      and q="''ref=google&foo=bar''" and st=empty_server]
  have "handleRequest sample_gen sample_env
        (post ''/api/auth/signin?ref=google&foo=bar'' (credentials ''any@test.com'' ''any'')) empty_server
     = handleRequest sample_gen sample_env
        (post ''/api/auth/signin'' (credentials ''any@test.com'' ''any'')) empty_server"
    by (simp add: post_def)
  then show ?thesis using 1 2 by simp
qed

section \<open>The booleans of a profile\<close>

text \<open>
  Claim C10. A profile is to show the \<open>email_verified\<close> and \<open>is_active\<close> the record
  stores, \<open>true\<close> standing in only for an absent field. The handler computes
  \<^verbatim>\<open>user.email_verified || true\<close>: for a first record that stores \<open>false\<close> in both
  fields the profile shows \<open>true\<close> in both.
\<close>

theorem me_overrides_stored_false:
  "own_prop unverified_record ''email_verified'' = Some (JBool False)
   \<and> own_prop unverified_record ''is_active'' = Some (JBool False)
   \<and> users unverified_server = [unverified_record]
   \<and> resp_status (fst (handleRequest sample_gen sample_env
        (get_with ''/api/auth/me'' (Some ''Bearer mock_token'')) unverified_server)) = 200
   \<and> body_field (fst (handleRequest sample_gen sample_env
        (get_with ''/api/auth/me'' (Some ''Bearer mock_token'')) unverified_server)) ''email_verified''
      = Some (JBool True)
   \<and> body_field (fst (handleRequest sample_gen sample_env
        (get_with ''/api/auth/me'' (Some ''Bearer mock_token'')) unverified_server)) ''is_active''
      = Some (JBool True)"
  by (simp add: run_defs sample_defs body_field_def)

text \<open>
  More generally, whatever the first record stores in \<open>email_verified\<close> and
  \<open>is_active\<close>, a profile answered 200 shows a truthy value in both: a stored
  \<open>false\<close> is never shown.
\<close>

lemma me_200_cases:
  assumes "me gen e r st = (Inr resp, st')" and "resp_status resp = 200"
    and "\<And>user. truthy (Some user) \<Longrightarrow> P (sendJSON 200 (JObj (stringify_obj
           [(''user_id'', own_prop user ''user_id''),
            (''email'', own_prop user ''email''),
            (''name'', own_prop user ''name''),
            (''email_verified'', js_or (own_prop user ''email_verified'') (Some (JBool True))),
            (''is_active'', js_or (own_prop user ''is_active'') (Some (JBool True))),
            (''created_at'', own_prop user ''created_at''),
            (''last_login_at'', own_prop user ''last_login_at'')])))"
  shows "P resp"
  using assms(1,2)
  apply (auto simp: me_def resp_status_sendJSON Let_def
      split: option.splits sum.splits prod.splits if_splits list.splits)
    apply (rule assms(3), simp add: mock_admin_def)
   apply (rule assms(3), simp)
  apply (rule assms(3), simp add: mock_admin_def)
  done

lemma body_field_stringify_Cons:
  "map_of (stringify_obj ((k, v) # kvs)) k' =
     (if k' = k \<and> v \<noteq> None then v else map_of (stringify_obj kvs) k')"
  by (cases v) auto

theorem profile_booleans_never_false:
  assumes route: "is_route ''GET'' ''/api/auth/me'' r"
    and ok: "resp_status (fst (handleRequest gen e r st)) = 200"
  shows "truthy (body_field (fst (handleRequest gen e r st)) ''email_verified'')
       \<and> truthy (body_field (fst (handleRequest gen e r st)) ''is_active'')"
proof -
  have "me gen e r st = (Inr (fst (handleRequest gen e r st)), snd (handleRequest gen e r st))"
    using handle_200[OF route _ ok] by (simp add: route_me[OF route])
  then show ?thesis
  proof (rule me_200_cases[OF _ ok])
    fix user
    let ?resp = "sendJSON 200 (JObj (stringify_obj
           [(''user_id'', own_prop user ''user_id''),
            (''email'', own_prop user ''email''),
            (''name'', own_prop user ''name''),
            (''email_verified'', js_or (own_prop user ''email_verified'') (Some (JBool True))),
            (''is_active'', js_or (own_prop user ''is_active'') (Some (JBool True))),
            (''created_at'', own_prop user ''created_at''),
            (''last_login_at'', own_prop user ''last_login_at'')]))"
    have t1: "truthy (js_or v (Some (JBool True)))" for v
      by (simp add: js_or_def)
    have t2: "js_or v (Some (JBool True)) \<noteq> None" for v
      by (cases v) (simp_all add: js_or_def)
    note t = t1 t2
    show "truthy (body_field ?resp ''email_verified'') \<and> truthy (body_field ?resp ''is_active'')"
      by (simp add: body_field_sendJSON body_field_stringify_Cons t del: stringify_obj.simps)
  qed
qed

theorem profile_booleans_never_false_witness:
  "own_prop unverified_record ''email_verified'' = Some (JBool False)
   \<and> resp_status (fst (handleRequest sample_gen sample_env
        (get_with ''/api/auth/me'' (Some ''Bearer mock_token'')) unverified_server)) = 200
   \<and> truthy (body_field (fst (handleRequest sample_gen sample_env
        (get_with ''/api/auth/me'' (Some ''Bearer mock_token'')) unverified_server)) ''email_verified'')
   \<and> truthy (body_field (fst (handleRequest sample_gen sample_env
        (get_with ''/api/auth/me'' (Some ''Bearer mock_token'')) unverified_server)) ''is_active'')"
proof -
  let ?r = "get_with ''/api/auth/me'' (Some ''Bearer mock_token'')"
  have 1: "is_route ''GET'' ''/api/auth/me'' ?r"
    by (simp add: is_route_def get_with_def url_pathname_def)
  have 2: "resp_status (fst (handleRequest sample_gen sample_env ?r unverified_server)) = 200"
    by (simp add: run_defs sample_defs)
  have 3: "own_prop unverified_record ''email_verified'' = Some (JBool False)"
    by (simp add: unverified_record_def)
  from profile_booleans_never_false[OF 1 2] 2 3 show ?thesis by simp
qed

text \<open>
  For a first record as signup stores it, the profile is that record's seven fields,
  and nothing is drawn or written.
\<close>

theorem profile_of_signup_record:
  assumes route: "is_route ''GET'' ''/api/auth/me'' r" and auth: "bearer r"
    and first: "users st = JObj
          [(''user_id'', JStr i), (''name'', nm), (''email'', JStr em),
           (''created_at'', JStr ca), (''is_active'', JBool True),
           (''email_verified'', JBool True), (''last_login_at'', JNull)] # rest"
  shows "handleRequest gen e r st =
      (sendJSON 200 (JObj
          [(''user_id'', JStr i), (''email'', JStr em), (''name'', nm),
           (''email_verified'', JBool True), (''is_active'', JBool True),
           (''created_at'', JStr ca), (''last_login_at'', JNull)]), st)"
proof -
  have h: "handleRequest gen e r st = (case me gen e r st of
        (Inr resp, st') \<Rightarrow> (resp, st')
      | (Inl x, st') \<Rightarrow> (sendJSON 500 (detail ''Internal server error''), st'))"
    using route by (simp add: handle_route route_me)
  show ?thesis using auth first
    by (auto simp: h me_def bearer_def interpolates_def js_or_def split: option.splits)
qed

theorem profile_of_signup_record_witness:
  "handleRequest sample_gen sample_env (get_with ''/api/auth/me'' (Some ''Bearer mock_token'')) alice_server =
      (sendJSON 200 (JObj
          [(''user_id'', JStr ''uuid-''), (''email'', JStr ''alice@example.com''), (''name'', JStr ''Alice''),
           (''email_verified'', JBool True), (''is_active'', JBool True),
           (''created_at'', JStr ''2024-01-01T00:00:00.000Z''), (''last_login_at'', JNull)]), alice_server)"
proof -
  let ?r = "get_with ''/api/auth/me'' (Some ''Bearer mock_token'')"
  have 1: "is_route ''GET'' ''/api/auth/me'' ?r"
    by (simp add: is_route_def get_with_def url_pathname_def)
  have 2: "bearer ?r" by (simp add: bearer_def get_with_def)
  have 3: "users alice_server = JObj
          [(''user_id'', JStr ''uuid-''), (''name'', JStr ''Alice''), (''email'', JStr ''alice@example.com''),
           (''created_at'', JStr ''2024-01-01T00:00:00.000Z''), (''is_active'', JBool True),
           (''email_verified'', JBool True), (''last_login_at'', JNull)] # []"
    by (simp add: alice_server_def alice_record_def)
  from profile_of_signup_record[OF 1 2 3] show ?thesis .
qed

text \<open>
  With an empty Collection the profile is the fixed administrator, under an identifier
  drawn for this one response; nothing is stored.
\<close>

theorem profile_fallback:
  assumes route: "is_route ''GET'' ''/api/auth/me'' r" and auth: "bearer r"
    and empty: "users st = []"
  shows "handleRequest gen e r st =
      (sendJSON 200 (JObj
          [(''user_id'', JStr (gen (drawn st))), (''email'', JStr ''admin@treeex.io''),
           (''name'', JStr ''Mock Admin''),
           (''email_verified'', JBool True), (''is_active'', JBool True),
           (''created_at'', JStr (now_iso e)), (''last_login_at'', JStr (now_iso e))]),
       st\<lparr>drawn := Suc (drawn st)\<rparr>)"
proof -
  have h: "handleRequest gen e r st = (case me gen e r st of
        (Inr resp, st') \<Rightarrow> (resp, st')
      | (Inl x, st') \<Rightarrow> (sendJSON 500 (detail ''Internal server error''), st'))"
    using route by (simp add: handle_route route_me)
  show ?thesis using auth empty
    by (auto simp: h me_def bearer_def interpolates_def js_or_def mock_admin_def split: option.splits)
qed

theorem profile_fallback_witness:
  "handleRequest sample_gen sample_env (get_with ''/api/auth/me'' (Some ''Bearer mock_token'')) empty_server =
      (sendJSON 200 (JObj
          [(''user_id'', JStr ''uuid-''), (''email'', JStr ''admin@treeex.io''),
           (''name'', JStr ''Mock Admin''),
           (''email_verified'', JBool True), (''is_active'', JBool True),
           (''created_at'', JStr ''2024-01-01T00:00:00.000Z''),
           (''last_login_at'', JStr ''2024-01-01T00:00:00.000Z'')]),
       \<lparr>users = [], disk = [], drawn = 1\<rparr>)"
proof -
  let ?r = "get_with ''/api/auth/me'' (Some ''Bearer mock_token'')"
  have 1: "is_route ''GET'' ''/api/auth/me'' ?r"
    by (simp add: is_route_def get_with_def url_pathname_def)
  have 2: "bearer ?r" by (simp add: bearer_def get_with_def)
  have 3: "users empty_server = []" by (simp add: empty_server_def)
  from profile_fallback[OF 1 2 3, of sample_gen sample_env] show ?thesis
    by (simp add: sample_gen_def sample_env_def empty_server_def)
qed

section \<open>What every request preserves\<close>

text \<open>A request appends at most one record, under the identifier it has just drawn.\<close>

lemma signup_appends:
  "\<exists>us. users (snd (signup gen e r st)) = users st @ us \<and> length us \<le> 1 \<and>
        (\<forall>u \<in> set us. has_id u \<and> id_of u = Some (JStr (gen (drawn st))) \<and> drawn st < drawn (snd (signup gen e r st)))"
  by (auto simp: signup_def Let_def generateTokens_def saveDB_def id_of_def
      split: option.splits sum.splits prod.splits)

lemma route_at_signup_snd:
  "req_method r = ''POST'' \<Longrightarrow>
   snd (handleRequest_at ''/api/auth/signup'' gen e r st) = snd (signup gen e r st)"
  by (simp add: handle_at_signup split: prod.splits sum.splits)

lemma handle_at_appends:
  "\<exists>us. users (snd (handleRequest_at pathname gen e r st)) = users st @ us \<and> length us \<le> 1 \<and>
        (\<forall>u \<in> set us. has_id u \<and> id_of u = Some (JStr (gen (drawn st))) \<and>
           drawn st < drawn (snd (handleRequest_at pathname gen e r st)))"
proof (cases "req_method r = ''POST'' \<and> pathname = ''/api/auth/signup''")
  case True
  then have "snd (handleRequest_at pathname gen e r st) = snd (signup gen e r st)"
    by (simp add: route_at_signup_snd)
  then show ?thesis using signup_appends[of gen e r st] by simp
next
  case False
  then show ?thesis using handle_at_frame[of r pathname gen e st] by simp
qed

lemma handle_appends:
  "\<exists>us. users (snd (handleRequest gen e r st)) = users st @ us \<and> length us \<le> 1 \<and>
        (\<forall>u \<in> set us. has_id u \<and> id_of u = Some (JStr (gen (drawn st))) \<and>
           drawn st < drawn (snd (handleRequest gen e r st)))"
  unfolding handleRequest_def by (rule handle_at_appends)

text \<open>
  Through any session every stored record stays an object with a string \<open>user_id\<close>,
  whatever is sent: the hypothesis of C1 and C3 holds in every state reached from an
  empty Collection.
\<close>

lemma handle_keeps_ids:
  "list_all has_id (users st) \<Longrightarrow> list_all has_id (users (snd (handleRequest gen e r st)))"
  using handle_appends[of gen e r st] by (auto simp: list_all_iff)

theorem stored_records_keep_ids:
  "list_all has_id (users st) \<Longrightarrow> list_all has_id (users (snd (run gen reqs st)))"
proof (induction reqs arbitrary: st)
  case Nil
  then show ?case by simp
next
  case (Cons a reqs)
  obtain e r where a: "a = (e, r)" by (cases a)
  from Cons.prems have "list_all has_id (users (snd (handleRequest gen e r st)))"
    by (rule handle_keeps_ids)
  then have "list_all has_id (users (snd (run gen reqs (snd (handleRequest gen e r st)))))"
    by (rule Cons.IH)
  then show ?case by (simp only: a snd_run_Cons)
qed

theorem stored_records_keep_ids_witness:
  "list_all has_id (users empty_server)
   \<and> list_all has_id (users (snd (run sample_gen
        [(sample_env, post ''/api/auth/signup''
            (JObj [(''email'', JNum 5), (''password'', JStr ''x''), (''name'', JStr ''n'')])),
         (sample_env, post ''/api/auth/signin'' (credentials ''bob@notexists.com'' ''x''))]
        empty_server)))
   \<and> length (users (snd (run sample_gen
        [(sample_env, post ''/api/auth/signup''
            (JObj [(''email'', JNum 5), (''password'', JStr ''x''), (''name'', JStr ''n'')])),
         (sample_env, post ''/api/auth/signin'' (credentials ''bob@notexists.com'' ''x''))]
        empty_server))) = 1"
proof -
  have 1: "list_all has_id (users empty_server)"
    by (simp add: empty_server_def)
  have 2: "length (users (snd (run sample_gen
        [(sample_env, post ''/api/auth/signup''
            (JObj [(''email'', JNum 5), (''password'', JStr ''x''), (''name'', JStr ''n'')])),
         (sample_env, post ''/api/auth/signin'' (credentials ''bob@notexists.com'' ''x''))]
        empty_server))) = 1"
    by (simp add: run_defs sample_defs)
  from stored_records_keep_ids[OF 1, of sample_gen] 1 2 show ?thesis by (simp del: run.simps)
qed

text \<open>
  Every request, whatever its pathname, keeps every stored identifier among the values
  the generator has returned, in the Collection and in the snapshot; and it keeps the
  identifiers of the Collection pairwise different, as long as the generator never
  repeats itself.
\<close>

lemma route_at_drawn: "drawn st \<le> drawn (snd (route_at pathname gen e r st))"
  using signup_tokens[of gen e r st "fst (signup gen e r st)" "snd (signup gen e r st)"]
    signin_tokens[of gen e r st "fst (signin gen e r st)" "snd (signin gen e r st)"]
    refresh_tokens[of gen e r st "fst (refresh gen e r st)" "snd (refresh gen e r st)"]
    me_tokens[of gen e r st "fst (me gen e r st)" "snd (me gen e r st)"]
  by (simp add: route_at_def Let_def)

lemma handle_at_drawn: "drawn st \<le> drawn (snd (handleRequest_at pathname gen e r st))"
  using route_at_drawn[of st pathname gen e r]
  by (auto simp: handleRequest_at_def split: prod.splits sum.splits)

lemma signup_disk:
  "disk (snd (signup gen e r st)) = disk st \<or>
   disk (snd (signup gen e r st)) = users (snd (signup gen e r st))"
  by (auto simp: signup_def Let_def generateTokens_def saveDB_def
      split: option.splits sum.splits prod.splits)

lemma handle_at_disk:
  "disk (snd (handleRequest_at pathname gen e r st)) = disk st \<or>
   disk (snd (handleRequest_at pathname gen e r st)) = users (snd (handleRequest_at pathname gen e r st))"
proof (cases "req_method r = ''POST'' \<and> pathname = ''/api/auth/signup''")
  case True
  then have "snd (handleRequest_at pathname gen e r st) = snd (signup gen e r st)"
    by (simp add: route_at_signup_snd)
  then show ?thesis using signup_disk[of gen e r st] by simp
next
  case False
  then show ?thesis using handle_at_frame[of r pathname gen e st] by simp
qed

lemma handle_at_ids_in:
  assumes "\<forall>u \<in> set (users st). id_of u \<in> (\<lambda>k. Some (JStr (gen k))) ` {..<drawn st}"
  shows "\<forall>u \<in> set (users (snd (handleRequest_at pathname gen e r st))).
           id_of u \<in> (\<lambda>k. Some (JStr (gen k))) ` {..<drawn (snd (handleRequest_at pathname gen e r st))}"
proof
  let ?st' = "snd (handleRequest_at pathname gen e r st)"
  obtain us where us: "users ?st' = users st @ us"
    "\<forall>u \<in> set us. id_of u = Some (JStr (gen (drawn st))) \<and> drawn st < drawn ?st'"
    using handle_at_appends[of pathname gen e r st] by blast
  have mono: "drawn st \<le> drawn ?st'" by (rule handle_at_drawn)
  fix u assume "u \<in> set (users ?st')"
  then consider "u \<in> set (users st)" | "u \<in> set us" using us(1) by auto
  then show "id_of u \<in> (\<lambda>k. Some (JStr (gen k))) ` {..<drawn ?st'}"
  proof cases
    case 1
    with assms obtain k where "k < drawn st" "id_of u = Some (JStr (gen k))" by force
    with mono show ?thesis by force
  next
    case 2
    with us(2) show ?thesis by force
  qed
qed

lemma handle_at_keeps_ids_unique:
  assumes "inj gen" and "ids_from gen st"
  shows "ids_from gen (snd (handleRequest_at pathname gen e r st))"
proof -
  let ?st' = "snd (handleRequest_at pathname gen e r st)"
  obtain us where us: "users ?st' = users st @ us" "length us \<le> 1"
    "\<forall>u \<in> set us. id_of u = Some (JStr (gen (drawn st))) \<and> drawn st < drawn ?st'"
    using handle_at_appends[of pathname gen e r st] by blast
  have old: "\<forall>u \<in> set (users st). id_of u \<in> (\<lambda>k. Some (JStr (gen k))) ` {..<drawn st}"
    and dist: "distinct (map id_of (users st))"
    using assms(2) by (simp_all add: ids_from_def)
  have new_notin: "Some (JStr (gen (drawn st))) \<notin> id_of ` set (users st)"
  proof
    assume "Some (JStr (gen (drawn st))) \<in> id_of ` set (users st)"
    then obtain u where "u \<in> set (users st)" "id_of u = Some (JStr (gen (drawn st)))" by auto
    with old obtain k where "k < drawn st" "gen k = gen (drawn st)" by force
    with assms(1) show False by (auto dest: injD)
  qed
  have d: "distinct (map id_of (users ?st'))"
  proof (cases us)
    case Nil
    then show ?thesis using us dist by simp
  next
    case (Cons u rest)
    with us(2) have "us = [u]" by simp
    then show ?thesis using us dist new_notin by simp
  qed
  from handle_at_ids_in[OF old] d show ?thesis by (simp add: ids_from_def)
qed

lemma handle_at_keeps_ids_drawn:
  assumes "ids_drawn gen st"
  shows "ids_drawn gen (snd (handleRequest_at pathname gen e r st))"
proof -
  let ?st' = "snd (handleRequest_at pathname gen e r st)"
  have old: "\<forall>u \<in> set (users st). id_of u \<in> (\<lambda>k. Some (JStr (gen k))) ` {..<drawn st}"
    and oldd: "\<forall>u \<in> set (disk st). id_of u \<in> (\<lambda>k. Some (JStr (gen k))) ` {..<drawn st}"
    using assms by (simp_all add: ids_drawn_def)
  have mono: "drawn st \<le> drawn ?st'" by (rule handle_at_drawn)
  have u: "\<forall>u \<in> set (users ?st'). id_of u \<in> (\<lambda>k. Some (JStr (gen k))) ` {..<drawn ?st'}"
    by (rule handle_at_ids_in[OF old])
  have d: "\<forall>u \<in> set (disk ?st'). id_of u \<in> (\<lambda>k. Some (JStr (gen k))) ` {..<drawn ?st'}"
  proof
    fix v assume v: "v \<in> set (disk ?st')"
    from handle_at_disk[of pathname gen e r st]
    show "id_of v \<in> (\<lambda>k. Some (JStr (gen k))) ` {..<drawn ?st'}"
    proof
      assume "disk ?st' = disk st"
      with v oldd obtain k where "k < drawn st" "id_of v = Some (JStr (gen k))" by force
      with mono show ?thesis by force
    next
      assume "disk ?st' = users ?st'"
      with v u show ?thesis by simp
    qed
  qed
  from u d show ?thesis by (auto simp: ids_drawn_def)
qed

lemma handle_keeps_ids_unique:
  assumes "inj gen" and "ids_from gen st"
  shows "ids_from gen (snd (handleRequest gen e r st))"
  unfolding handleRequest_def using assms by (rule handle_at_keeps_ids_unique)

lemma snd_run_at_Cons:
  "snd (run_at gen ((pathname, e, r) # reqs) st) = snd (run_at gen reqs (snd (handleRequest_at pathname gen e r st)))"
  by (simp split: prod.splits)

lemma run_run_at:
  "run gen reqs st = run_at gen (map (\<lambda>(e, r). (url_pathname (req_url r), e, r)) reqs) st"
  by (induction reqs arbitrary: st) (auto simp: handleRequest_def split: prod.splits)

lemma run_at_keeps_ids_unique:
  assumes "inj gen" and "ids_from gen st"
  shows "ids_from gen (snd (run_at gen reqs st))"
  using assms(2)
proof (induction reqs arbitrary: st)
  case Nil
  then show ?case by simp
next
  case (Cons a reqs)
  obtain pathname e r where a: "a = (pathname, e, r)" by (cases a)
  from assms(1) Cons.prems have "ids_from gen (snd (handleRequest_at pathname gen e r st))"
    by (rule handle_at_keeps_ids_unique)
  then have "ids_from gen (snd (run_at gen reqs (snd (handleRequest_at pathname gen e r st))))"
    by (rule Cons.IH)
  then show ?case by (simp only: a snd_run_at_Cons)
qed

theorem user_ids_stay_unique:
  assumes "inj gen" and "ids_from gen st"
  shows "ids_from gen (snd (run gen reqs st))"
  using assms(2)
proof (induction reqs arbitrary: st)
  case Nil
  then show ?case by simp
next
  case (Cons a reqs)
  obtain e r where a: "a = (e, r)" by (cases a)
  from assms(1) Cons.prems have "ids_from gen (snd (handleRequest gen e r st))"
    by (rule handle_keeps_ids_unique)
  then have "ids_from gen (snd (run gen reqs (snd (handleRequest gen e r st))))"
    by (rule Cons.IH)
  then show ?case by (simp only: a snd_run_Cons)
qed

theorem user_ids_stay_unique_witness:
  "inj sample_gen \<and> ids_from sample_gen empty_server
   \<and> ids_from sample_gen (snd (run sample_gen
        [(sample_env, post ''/api/auth/signup'' (credentials ''alice@example.com'' ''securepassword'')),
         (sample_env, post ''/api/auth/signup'' (credentials ''alice@example.com'' ''other''))]
        empty_server))
   \<and> map id_of (users (snd (run sample_gen
        [(sample_env, post ''/api/auth/signup'' (credentials ''alice@example.com'' ''securepassword'')),
         (sample_env, post ''/api/auth/signup'' (credentials ''alice@example.com'' ''other''))]
        empty_server)))
      = [Some (JStr ''uuid-''), Some (JStr ''uuid-iii'')]"
proof -
  have 1: "ids_from sample_gen empty_server"
    by (simp add: ids_from_def empty_server_def)
  have 2: "map id_of (users (snd (run sample_gen
        [(sample_env, post ''/api/auth/signup'' (credentials ''alice@example.com'' ''securepassword'')),
         (sample_env, post ''/api/auth/signup'' (credentials ''alice@example.com'' ''other''))]
        empty_server)))
      = [Some (JStr ''uuid-''), Some (JStr ''uuid-iii'')]"
    by (simp add: run_defs sample_defs id_of_def numeral_3_eq_3)
  from user_ids_stay_unique[OF inj_sample_gen 1] inj_sample_gen 1 2
  show ?thesis by (simp del: run.simps)
qed

section \<open>Signup and the uniqueness of emails\<close>

text \<open>
  Signup never looks the email up: with a non-empty email and password it is answered
  200 and appends a record with that email, whatever the Collection holds.
\<close>

lemma signup_at_appends_email:
  assumes post: "req_method r = ''POST''"
    and body: "parseBody (req_body r) = Some (JObj kvs)"
    and email: "map_of kvs ''email'' = Some (JStr em)" "em \<noteq> []"
    and password: "map_of kvs ''password'' = Some (JStr pw)" "pw \<noteq> []"
  shows "resp_status (fst (handleRequest_at ''/api/auth/signup'' gen e r st)) = 200
       \<and> (\<exists>u. users (snd (handleRequest_at ''/api/auth/signup'' gen e r st)) = users st @ [u]
              \<and> email_of u = Some (JStr em)
              \<and> id_of u = Some (JStr (gen (drawn st))))"
proof -
  have pw: "truthy (Some (JStr pw))" using password by simp
  from signup_created[OF body email password(1) pw, of gen e st]
  show ?thesis
    by (auto simp: handle_at_signup[OF post] resp_status_sendJSON saveDB_def email_of_def id_of_def)
qed

text \<open>
  Claim C8, as the code has it. The identifiers of the stored records are pairwise
  different values of the generator in the empty Collection, and from any state in
  which they are so they stay so through every request and every session, whatever the
  pathnames, as long as the generator never repeats itself. A signin leaves the
  Collection and the snapshot as they were, so the record it makes up for an unknown
  email is never inserted. Emails are not kept unique: a signup with a non-empty email
  that a stored record already has, and a non-empty password, is answered 200 and
  appends a second record with that email under the identifier just drawn, after which
  two stored records share the email.
\<close>

theorem user_ids_unique_emails_not:
  "ids_from gen empty_server
   \<and> (inj gen \<and> ids_from gen st \<longrightarrow>
        ids_from gen (snd (handleRequest_at pathname gen e r st)) \<and>
        distinct (map id_of (users (snd (handleRequest_at pathname gen e r st)))) \<and>
        ids_from gen (snd (run_at gen reqs st)) \<and>
        distinct (map id_of (users (snd (run_at gen reqs st)))))
   \<and> (req_method r = ''POST'' \<and> pathname = ''/api/auth/signin'' \<longrightarrow>
        users (snd (handleRequest_at pathname gen e r st)) = users st \<and>
        disk (snd (handleRequest_at pathname gen e r st)) = disk st)
   \<and> (req_method r = ''POST'' \<and> pathname = ''/api/auth/signup'' \<and>
      parseBody (req_body r) = Some (JObj kvs) \<and>
      map_of kvs ''email'' = Some (JStr em) \<and> em \<noteq> [] \<and>
      map_of kvs ''password'' = Some (JStr pw) \<and> pw \<noteq> [] \<and>
      u0 \<in> set (users st) \<and> email_of u0 = Some (JStr em) \<longrightarrow>
        resp_status (fst (handleRequest_at pathname gen e r st)) = 200 \<and>
        (\<exists>u. users (snd (handleRequest_at pathname gen e r st)) = users st @ [u] \<and>
             email_of u = Some (JStr em) \<and> id_of u = Some (JStr (gen (drawn st)))) \<and>
        \<not> distinct (map email_of (users (snd (handleRequest_at pathname gen e r st)))))"
proof -
  have base: "ids_from gen empty_server"
    by (simp add: ids_from_def empty_server_def)
  have keep: "ids_from gen (snd (handleRequest_at pathname gen e r st)) \<and>
        distinct (map id_of (users (snd (handleRequest_at pathname gen e r st)))) \<and>
        ids_from gen (snd (run_at gen reqs st)) \<and>
        distinct (map id_of (users (snd (run_at gen reqs st))))"
    if "inj gen" "ids_from gen st"
    using handle_at_keeps_ids_unique[OF that, of pathname e r] run_at_keeps_ids_unique[OF that, of reqs]
    by (simp add: ids_from_def)
  have ghost: "users (snd (handleRequest_at pathname gen e r st)) = users st \<and>
        disk (snd (handleRequest_at pathname gen e r st)) = disk st"
    if "req_method r = ''POST''" "pathname = ''/api/auth/signin''"
    using that handle_at_frame[of r pathname gen e st] by simp
  have dup: "resp_status (fst (handleRequest_at pathname gen e r st)) = 200 \<and>
        (\<exists>u. users (snd (handleRequest_at pathname gen e r st)) = users st @ [u] \<and>
             email_of u = Some (JStr em) \<and> id_of u = Some (JStr (gen (drawn st)))) \<and>
        \<not> distinct (map email_of (users (snd (handleRequest_at pathname gen e r st))))"
    if post: "req_method r = ''POST''" and path: "pathname = ''/api/auth/signup''"
      and body: "parseBody (req_body r) = Some (JObj kvs)"
      and email: "map_of kvs ''email'' = Some (JStr em)" "em \<noteq> []"
      and password: "map_of kvs ''password'' = Some (JStr pw)" "pw \<noteq> []"
      and stored: "u0 \<in> set (users st)" "email_of u0 = Some (JStr em)"
  proof -
    from signup_at_appends_email[OF post body email password, of gen e st]
    obtain u where st: "resp_status (fst (handleRequest_at pathname gen e r st)) = 200"
      and u: "users (snd (handleRequest_at pathname gen e r st)) = users st @ [u]"
        "email_of u = Some (JStr em)" "id_of u = Some (JStr (gen (drawn st)))"
      unfolding path by blast
    from stored u(2) have "email_of u \<in> email_of ` set (users st)" by force
    then have "\<not> distinct (map email_of (users st @ [u]))" by simp
    with st u show ?thesis by auto
  qed
  show ?thesis using base keep ghost dup by blast
qed

theorem user_ids_unique_emails_not_witness:
  "inj sample_gen \<and> ids_from sample_gen alice_server
   \<and> alice_record \<in> set (users alice_server)
   \<and> email_of alice_record = Some (JStr ''alice@example.com'')
   \<and> resp_status (fst (handleRequest_at ''/api/auth/signup'' sample_gen sample_env
        (post ''/api/auth/signup'' (credentials ''alice@example.com'' ''other'')) alice_server)) = 200
   \<and> distinct (map id_of (users (snd (handleRequest_at ''/api/auth/signup'' sample_gen sample_env
        (post ''/api/auth/signup'' (credentials ''alice@example.com'' ''other'')) alice_server))))
   \<and> \<not> distinct (map email_of (users (snd (handleRequest_at ''/api/auth/signup'' sample_gen sample_env
        (post ''/api/auth/signup'' (credentials ''alice@example.com'' ''other'')) alice_server))))
   \<and> distinct (map id_of (users (snd (run_at sample_gen
        [(''/api/auth/signup'', sample_env,
            post ''/api/auth/signup'' (credentials ''alice@example.com'' ''other'')),
         (''/api/auth/signin'', sample_env,
            post ''/api/auth/signin'' (credentials ''bob@notexists.com'' ''x''))]
        alice_server))))
   \<and> users (snd (handleRequest_at ''/api/auth/signin'' sample_gen sample_env
        (post ''/api/auth/signin'' (credentials ''bob@notexists.com'' ''x'')) alice_server)) = [alice_record]"
proof -
  let ?up = "post ''/api/auth/signup'' (credentials ''alice@example.com'' ''other'')"
  let ?in = "post ''/api/auth/signin'' (credentials ''bob@notexists.com'' ''x'')"
  let ?reqs = "[(''/api/auth/signup'', sample_env, ?up), (''/api/auth/signin'', sample_env, ?in)]"
  let ?kvs = "[(''email'', JStr ''alice@example.com''), (''password'', JStr ''other'')]"
  note a = user_ids_unique_emails_not[where gen = sample_gen and st = alice_server
      and pathname = "''/api/auth/signup''" and e = sample_env and r = ?up and reqs = ?reqs
      and kvs = ?kvs and em = "''alice@example.com''" and pw = "''other''" and ?u0.0 = alice_record]
  note b = user_ids_unique_emails_not[where gen = sample_gen and st = alice_server
      and pathname = "''/api/auth/signin''" and e = sample_env and r = ?in and reqs = "[]"
      and kvs = "[]" and em = "[]" and pw = "[]" and ?u0.0 = alice_record]
  have 1: "req_method ?up = ''POST''" "req_method ?in = ''POST''" by (simp_all add: post_def)
  have 2: "parseBody (req_body ?up) = Some (JObj ?kvs)"
    by (simp add: post_def parseBody_def credentials_def)
  have 3: "alice_record \<in> set (users alice_server)" by (simp add: alice_server_def)
  have 4: "email_of alice_record = Some (JStr ''alice@example.com'')"
    by (simp add: alice_record_def email_of_def)
  have "Some (JStr ''uuid-'') = (\<lambda>k. Some (JStr (sample_gen k))) 0" by (simp add: sample_gen_def)
  moreover have "(0::nat) \<in> {..<3}" by simp
  ultimately have "Some (JStr ''uuid-'') \<in> (\<lambda>k. Some (JStr (sample_gen k))) ` {..<3}"
    by (rule image_eqI)
  then have 5: "ids_from sample_gen alice_server"
    by (simp add: ids_from_def alice_server_def alice_record_def id_of_def)
  have 6: "users alice_server = [alice_record]" by (simp add: alice_server_def)
  have keep: "ids_from sample_gen (snd (handleRequest_at ''/api/auth/signup'' sample_gen sample_env ?up alice_server)) \<and>
      distinct (map id_of (users (snd (handleRequest_at ''/api/auth/signup'' sample_gen sample_env ?up alice_server)))) \<and>
      ids_from sample_gen (snd (run_at sample_gen ?reqs alice_server)) \<and>
      distinct (map id_of (users (snd (run_at sample_gen ?reqs alice_server))))"
    by (rule a[THEN conjunct2, THEN conjunct1, THEN mp]) (intro conjI inj_sample_gen 5)
  have dup: "resp_status (fst (handleRequest_at ''/api/auth/signup'' sample_gen sample_env ?up alice_server)) = 200 \<and>
      (\<exists>u. users (snd (handleRequest_at ''/api/auth/signup'' sample_gen sample_env ?up alice_server))
              = users alice_server @ [u] \<and>
           email_of u = Some (JStr ''alice@example.com'') \<and>
           id_of u = Some (JStr (sample_gen (drawn alice_server)))) \<and>
      \<not> distinct (map email_of (users (snd (handleRequest_at ''/api/auth/signup'' sample_gen sample_env ?up alice_server))))"
    by (rule a[THEN conjunct2, THEN conjunct2, THEN conjunct2, THEN mp]) (simp add: 1 2 3 4)
  have ghost: "users (snd (handleRequest_at ''/api/auth/signin'' sample_gen sample_env ?in alice_server)) = users alice_server \<and>
      disk (snd (handleRequest_at ''/api/auth/signin'' sample_gen sample_env ?in alice_server)) = disk alice_server"
    by (rule b[THEN conjunct2, THEN conjunct2, THEN conjunct1, THEN mp]) (simp add: 1)
  from ghost have g: "users (snd (handleRequest_at ''/api/auth/signin'' sample_gen sample_env ?in alice_server)) = [alice_record]"
    unfolding 6 by (rule conjunct1)
  show ?thesis
    by (intro conjI inj_sample_gen 5 3 4 dup[THEN conjunct1] keep[THEN conjunct2, THEN conjunct1]
        dup[THEN conjunct2, THEN conjunct2] keep[THEN conjunct2, THEN conjunct2, THEN conjunct2] g)
qed

text \<open>
  The claim as first stated asks for one record per email among those signup created.
  Two signups with the same email, starting from the empty Collection, are both answered
  200 and leave two records with that email, under two identifiers.
\<close>

theorem signup_twice_duplicates_email:
  "map resp_status (fst (run sample_gen
      [(sample_env, post ''/api/auth/signup'' (credentials ''alice@example.com'' ''securepassword'')),
       (sample_env, post ''/api/auth/signup'' (credentials ''alice@example.com'' ''other''))]
      empty_server)) = [200, 200]
   \<and> map email_of (users (snd (run sample_gen
      [(sample_env, post ''/api/auth/signup'' (credentials ''alice@example.com'' ''securepassword'')),
       (sample_env, post ''/api/auth/signup'' (credentials ''alice@example.com'' ''other''))]
      empty_server))) = [Some (JStr ''alice@example.com''), Some (JStr ''alice@example.com'')]
   \<and> map id_of (users (snd (run sample_gen
      [(sample_env, post ''/api/auth/signup'' (credentials ''alice@example.com'' ''securepassword'')),
       (sample_env, post ''/api/auth/signup'' (credentials ''alice@example.com'' ''other''))]
      empty_server))) = [Some (JStr ''uuid-''), Some (JStr ''uuid-iii'')]
   \<and> \<not> distinct (map email_of (users (snd (run sample_gen
      [(sample_env, post ''/api/auth/signup'' (credentials ''alice@example.com'' ''securepassword'')),
       (sample_env, post ''/api/auth/signup'' (credentials ''alice@example.com'' ''other''))]
      empty_server))))"
  by (simp add: run_defs sample_defs email_of_def id_of_def numeral_3_eq_3)

section \<open>Answers that do not depend on the state\<close>

text \<open>
  Whatever pathname the parser returns: a preflight is answered 204 with an empty
  body, the health check 200, and a request for none of the five routes 404 with the
  detail \<^verbatim>\<open>Not found\<close>; none changes the state.
\<close>

theorem fixed_responses:
  "(req_method r = ''OPTIONS'' \<longrightarrow>
      handleRequest_at pathname gen e r st =
        (\<lparr>resp_status = 204, resp_headers = cors_headers, resp_body = None\<rparr>, st))
   \<and> (req_method r = ''GET'' \<and> pathname = ''/health'' \<longrightarrow>
      handleRequest_at pathname gen e r st = (sendJSON 200 (JObj [(''status'', JStr ''running'')]), st))
   \<and> (req_method r \<noteq> ''OPTIONS'' \<and> \<not> known_route (req_method r) pathname \<longrightarrow>
      handleRequest_at pathname gen e r st = (sendJSON 404 (JObj [(''detail'', JStr ''Not found'')]), st))"
  by (auto simp: handleRequest_at_def route_at_def known_route_def preflight_def detail_def)

theorem fixed_responses_witness:
  "handleRequest_at ''/health'' sample_gen sample_env (get_with ''/health'' None) alice_server
     = (sendJSON 200 (JObj [(''status'', JStr ''running'')]), alice_server)
   \<and> \<not> known_route ''GET'' ''/unknown/endpoint''
   \<and> handleRequest_at ''/unknown/endpoint'' sample_gen sample_env
        (get_with ''/unknown/endpoint'' None) alice_server
     = (sendJSON 404 (JObj [(''detail'', JStr ''Not found'')]), alice_server)
   \<and> resp_status (fst (handleRequest_at ''/api/auth/signup'' sample_gen sample_env
        \<lparr>req_method = ''OPTIONS'', req_url = ''/api/auth/signup'', req_authorization = None,
         req_body = EmptyBody\<rparr> alice_server)) = 204"
proof -
  let ?h = "get_with ''/health'' None"
  let ?u = "get_with ''/unknown/endpoint'' None"
  let ?o = "\<lparr>req_method = ''OPTIONS'', req_url = ''/api/auth/signup'', req_authorization = None,
         req_body = EmptyBody\<rparr>"
  have 1: "req_method ?h = ''GET''" "req_method ?u = ''GET''" "req_method ?o = ''OPTIONS''"
    by (simp_all add: get_with_def)
  have 2: "\<not> known_route ''GET'' ''/unknown/endpoint''"
    by (simp add: known_route_def)
  from fixed_responses[of ?h "''/health''" sample_gen sample_env alice_server]
       fixed_responses[of ?u "''/unknown/endpoint''" sample_gen sample_env alice_server]
       fixed_responses[of ?o "''/api/auth/signup''" sample_gen sample_env alice_server]
       1 2
  show ?thesis by simp
qed

text \<open>
  On the three routes that read a body, a body that does not parse is answered 400
  with the detail \<^verbatim>\<open>Invalid JSON\<close>, and the body \<^verbatim>\<open>null\<close> makes the destructuring
  throw and is answered 500; neither changes the state.
\<close>

theorem unparsable_and_null_bodies:
  assumes "is_route ''POST'' ''/api/auth/signup'' r \<or> is_route ''POST'' ''/api/auth/signin'' r
         \<or> is_route ''POST'' ''/api/auth/refresh'' r"
  shows "(req_body r = InvalidJSON \<longrightarrow>
            handleRequest gen e r st = (sendJSON 400 (JObj [(''detail'', JStr ''Invalid JSON'')]), st))
       \<and> (req_body r = JSONText JNull \<longrightarrow>
            handleRequest gen e r st = (sendJSON 500 (JObj [(''detail'', JStr ''Internal server error'')]), st))"
  using assms
  by (auto simp: handle_route route_signup route_signin route_refresh
      signup_def signin_def refresh_def parseBody_def detail_def)

theorem unparsable_and_null_bodies_witness:
  "handleRequest sample_gen sample_env
      \<lparr>req_method = ''POST'', req_url = ''/api/auth/signin'', req_authorization = None,
       req_body = InvalidJSON\<rparr> alice_server
     = (sendJSON 400 (JObj [(''detail'', JStr ''Invalid JSON'')]), alice_server)
   \<and> handleRequest sample_gen sample_env (post ''/api/auth/refresh'' JNull) alice_server
     = (sendJSON 500 (JObj [(''detail'', JStr ''Internal server error'')]), alice_server)"
proof -
  let ?a = "\<lparr>req_method = ''POST'', req_url = ''/api/auth/signin'', req_authorization = None,
       req_body = InvalidJSON\<rparr>"
  let ?b = "post ''/api/auth/refresh'' JNull"
  have 1: "is_route ''POST'' ''/api/auth/signup'' ?a \<or> is_route ''POST'' ''/api/auth/signin'' ?a
         \<or> is_route ''POST'' ''/api/auth/refresh'' ?a"
    by (simp add: is_route_def url_pathname_def)
  have 2: "is_route ''POST'' ''/api/auth/signup'' ?b \<or> is_route ''POST'' ''/api/auth/signin'' ?b
         \<or> is_route ''POST'' ''/api/auth/refresh'' ?b"
    by (simp add: is_route_def url_pathname_def post_def)
  have 3: "req_body ?a = InvalidJSON" "req_body ?b = JSONText JNull"
    by (simp_all add: post_def)
  from unparsable_and_null_bodies[OF 1, of sample_gen sample_env alice_server]
       unparsable_and_null_bodies[OF 2, of sample_gen sample_env alice_server] 3
  show ?thesis by simp
qed

end
